theory Spec2Isabelle
  imports Complex_Main "HOL-Library.Word"
begin

section \<open>Parametric map construction (highdicom/pm/sop.py)\<close>

text \<open>
  The constructor \<^verbatim>\<open>ParametricMap.__init__\<close> and its three helper methods are embedded
  as functions on explicit values. Every \<^verbatim>\<open>raise\<close> of the module is a constructor of
  \<open>error\<close>; a function that can raise returns \<open>error + 'a\<close> with \<open>Inl\<close> the exception.
\<close>

subsection \<open>numpy element types and arrays\<close>

text \<open>
  The element types of numpy in native byte order. \<open>kind\<close>, \<open>name\<close> and \<open>itemsize\<close>
  are the attributes of \<^verbatim>\<open>numpy.dtype\<close> that the module reads.
\<close>

datatype np_dtype =
    np_bool
  | np_int8 | np_int16 | np_int32 | np_int64
  | np_uint8 | np_uint16 | np_uint32 | np_uint64
  | np_float16 | np_float32 | np_float64 | np_float128
  | np_complex64 | np_complex128 | np_complex256
  | np_object | np_bytes | np_str | np_void
  | np_datetime64 | np_timedelta64

fun kind :: "np_dtype \<Rightarrow> char" where
  "kind np_bool = CHR ''b''"
| "kind np_int8 = CHR ''i''"
| "kind np_int16 = CHR ''i''"
| "kind np_int32 = CHR ''i''"
| "kind np_int64 = CHR ''i''"
| "kind np_uint8 = CHR ''u''"
| "kind np_uint16 = CHR ''u''"
| "kind np_uint32 = CHR ''u''"
| "kind np_uint64 = CHR ''u''"
| "kind np_float16 = CHR ''f''"
| "kind np_float32 = CHR ''f''"
| "kind np_float64 = CHR ''f''"
| "kind np_float128 = CHR ''f''"
| "kind np_complex64 = CHR ''c''"
| "kind np_complex128 = CHR ''c''"
| "kind np_complex256 = CHR ''c''"
| "kind np_object = CHR ''O''"
| "kind np_bytes = CHR ''S''"
| "kind np_str = CHR ''U''"
| "kind np_void = CHR ''V''"
| "kind np_datetime64 = CHR ''M''"
| "kind np_timedelta64 = CHR ''m''"

fun name :: "np_dtype \<Rightarrow> string" where
  "name np_bool = ''bool''"
| "name np_int8 = ''int8''"
| "name np_int16 = ''int16''"
| "name np_int32 = ''int32''"
| "name np_int64 = ''int64''"
| "name np_uint8 = ''uint8''"
| "name np_uint16 = ''uint16''"
| "name np_uint32 = ''uint32''"
| "name np_uint64 = ''uint64''"
| "name np_float16 = ''float16''"
| "name np_float32 = ''float32''"
| "name np_float64 = ''float64''"
| "name np_float128 = ''float128''"
| "name np_complex64 = ''complex64''"
| "name np_complex128 = ''complex128''"
| "name np_complex256 = ''complex256''"
| "name np_object = ''object''"
| "name np_bytes = ''bytes''"
| "name np_str = ''str''"
| "name np_void = ''void''"
| "name np_datetime64 = ''datetime64''"
| "name np_timedelta64 = ''timedelta64''"

text \<open>Bytes per element; the flexible types (bytes, str, void) are taken at length 0.\<close>

fun itemsize :: "np_dtype \<Rightarrow> nat" where
  "itemsize np_bool = 1"
| "itemsize np_int8 = 1"
| "itemsize np_int16 = 2"
| "itemsize np_int32 = 4"
| "itemsize np_int64 = 8"
| "itemsize np_uint8 = 1"
| "itemsize np_uint16 = 2"
| "itemsize np_uint32 = 4"
| "itemsize np_uint64 = 8"
| "itemsize np_float16 = 2"
| "itemsize np_float32 = 4"
| "itemsize np_float64 = 8"
| "itemsize np_float128 = 16"
| "itemsize np_complex64 = 8"
| "itemsize np_complex128 = 16"
| "itemsize np_complex256 = 32"
| "itemsize np_object = 8"
| "itemsize np_bytes = 0"
| "itemsize np_str = 0"
| "itemsize np_void = 0"
| "itemsize np_datetime64 = 8"
| "itemsize np_timedelta64 = 8"

text \<open>
  An array is its element type, its shape and its elements in C (row-major) order.
  An element of integer kind is its value. An element of any other kind is the unsigned
  integer that its \<open>itemsize\<close> bytes spell in little-endian order: the module only copies
  such elements bytewise and never computes with them.
\<close>

record ndarray =
  dtype :: np_dtype
  shape :: "nat list"
  data :: "int list"

definition ndim :: "ndarray \<Rightarrow> nat" where
  "ndim a = length (shape a)"

text \<open>The values an element of the given type can take, in the representation above.\<close>

definition in_range :: "np_dtype \<Rightarrow> int \<Rightarrow> bool" where
  "in_range d v =
     (if kind d = CHR ''i''
      then - (2 ^ (8 * itemsize d - 1)) \<le> v \<and> v < 2 ^ (8 * itemsize d - 1)
      else 0 \<le> v \<and> v < 2 ^ (8 * itemsize d))"

definition wf_ndarray :: "ndarray \<Rightarrow> bool" where
  "wf_ndarray a =
     (length (data a) = prod_list (shape a) \<and> list_all (in_range (dtype a)) (data a))"

text \<open>\<^verbatim>\<open>a[np.newaxis, ...]\<close> and \<^verbatim>\<open>a[..., np.newaxis]\<close>: a new axis of length 1, same elements.\<close>

definition newaxis_first :: "ndarray \<Rightarrow> ndarray" where
  "newaxis_first a = a\<lparr>shape := 1 # shape a\<rparr>"

definition newaxis_last :: "ndarray \<Rightarrow> ndarray" where
  "newaxis_last a = a\<lparr>shape := shape a @ [1]\<rparr>"

text \<open>
  \<^verbatim>\<open>a[i, :, :, j]\<close> for an array of at least four axes and indices inside the first and
  fourth axis (the loops of \<^verbatim>\<open>_create_frame_items\<close> draw them from \<^verbatim>\<open>range\<close> of these
  axes): the element \<open>[i, y, x, j, t]\<close> lies at \<open>(((i * r + y) * c + x) * m + j) * rest + t\<close>.
  For a 4D array \<open>rest = 1\<close> and the result is the \<open>r \<times> c\<close> plane of position \<open>i\<close> and
  channel \<open>j\<close>.
\<close>

definition getitem_plane :: "ndarray \<Rightarrow> nat \<Rightarrow> nat \<Rightarrow> ndarray" where
  "getitem_plane a i j =
     (let r = shape a ! 1; c = shape a ! 2; m = shape a ! 3;
          rest = prod_list (drop 4 (shape a))
      in \<lparr>dtype = dtype a,
          shape = [r, c] @ drop 4 (shape a),
          data = concat (map (\<lambda>y. concat (map (\<lambda>x.
                   map (\<lambda>t. data a ! ((((i * r + y) * c + x) * m + j) * rest + t)) [0..<rest])
                   [0..<c])) [0..<r])\<rparr>)"

text \<open>
  \<^verbatim>\<open>a.astype(np.uint16)\<close> on integer elements is the C conversion: the value modulo
  \<open>2^16\<close>. \<^verbatim>\<open>a.astype(np.int16)\<close> keeps the low 16 bits as a two's complement value.
\<close>

definition astype_uint16 :: "ndarray \<Rightarrow> ndarray" where
  "astype_uint16 a = a\<lparr>dtype := np_uint16, data := map (\<lambda>v. v mod 2 ^ 16) (data a)\<rparr>"

definition astype_int16 :: "ndarray \<Rightarrow> ndarray" where
  "astype_int16 a =
     a\<lparr>dtype := np_int16, data := map (\<lambda>v. (v + 2 ^ 15) mod 2 ^ 16 - 2 ^ 15) (data a)\<rparr>"

text \<open>
  \<^verbatim>\<open>a.flatten().tobytes()\<close>: the elements in row-major order, each as \<open>itemsize\<close> bytes,
  least significant byte first (the byte order of the machines numpy stores natively on
  and the one DICOM little-endian transfer syntaxes ask for).
\<close>

type_synonym byte = "8 word"

definition element_bytes :: "nat \<Rightarrow> int \<Rightarrow> byte list" where
  "element_bytes k v = map (\<lambda>b. word_of_int (v div 256 ^ b)) [0..<k]"

definition tobytes :: "ndarray \<Rightarrow> byte list" where
  "tobytes a = concat (map (element_bytes (itemsize (dtype a))) (data a))"

subsection \<open>Pixel data types\<close>

datatype PixelDataType = SHORT | USHORT | SINGLE | DOUBLE

datatype error =
    NoSourceImage
  | InconsistentSourceImages
  | MultipleMultiframeSources
  | UnsupportedTransferSyntax string
  | InvalidWindowWidth
  | FlatMappingsRequired
  | NestedMappingsRequired
  | InvalidArrayRank
  | MappingCountMismatch
  | SourcePlaneCountMismatch
  | SuppliedPlaneCountMismatch
  | UnsupportedFloatType
  | UnsupportedUnsignedType
  | UnsupportedSignedType
  | UnsupportedDataType
  | NotASinglePlane
  | IndexError
  | AttributeError string
  | CollaboratorError string
  | KeyError
  | SequenceContentsTypeError

text \<open>
  The last two are exceptions of pydicom that pass through the constructor:
  \<open>KeyError\<close> from subscripting a \<^verbatim>\<open>Dataset\<close> with an integer that is no tag of it, and
  \<open>SequenceContentsTypeError\<close>, the TypeError with which pydicom refuses to store, in an
  attribute that holds a sequence, a value that is not a sequence of \<^verbatim>\<open>Dataset\<close> items.
\<close>

text \<open>The dictionary \<^verbatim>\<open>self._pixel_data_type_map\<close>; it has all four keys.\<close>

fun pixel_data_type_map :: "PixelDataType \<Rightarrow> string" where
  "pixel_data_type_map SHORT = ''PixelData''"
| "pixel_data_type_map USHORT = ''PixelData''"
| "pixel_data_type_map SINGLE = ''FloatPixelData''"
| "pixel_data_type_map DOUBLE = ''DoubleFloatPixelData''"

text \<open>\<^verbatim>\<open>ParametricMap._get_pixel_data_type_and_attr\<close> (lines 639-708).\<close>

definition get_pixel_data_type_and_attr :: "ndarray \<Rightarrow> error + (PixelDataType \<times> string)" where
  "get_pixel_data_type_and_attr pixel_array =
     (if kind (dtype pixel_array) = CHR ''f'' then
        (if name (dtype pixel_array) = ''float32'' then Inr (SINGLE, pixel_data_type_map SINGLE)
         else if name (dtype pixel_array) = ''float64'' then Inr (DOUBLE, pixel_data_type_map DOUBLE)
         else Inl UnsupportedFloatType)
      else if kind (dtype pixel_array) = CHR ''u'' then
        (if dtype pixel_array \<notin> {np_uint8, np_uint16} then Inl UnsupportedUnsignedType
         else Inr (USHORT, pixel_data_type_map USHORT))
      else if kind (dtype pixel_array) = CHR ''i'' then
        (if dtype pixel_array \<notin> {np_int8, np_int16} then Inl UnsupportedSignedType
         else Inr (SHORT, pixel_data_type_map SHORT))
      else Inl UnsupportedDataType)"

subsection \<open>Values supplied by the caller\<close>

text \<open>
  A value-mapping item, a plane position, pixel measures and a plane orientation are
  objects of other modules; the constructor stores them and never looks inside.
\<close>

datatype RealWorldValueMapping = LUTLabel string
datatype PlanePositionSequence = ImagePosition "int list"
datatype PixelMeasuresSequence = PixelSpacing "int list"
datatype PlaneOrientationSequence = ImageOrientation "int list"

text \<open>
  The argument \<^verbatim>\<open>real_world_value_mappings\<close> is a Python sequence whose elements are
  mapping items (a flat sequence) or again sequences (a nested one); Python does not
  stop a caller from mixing them.
\<close>

datatype pyobj = Item RealWorldValueMapping | Seq "pyobj list"

fun isinstance_RealWorldValueMapping :: "pyobj \<Rightarrow> bool" where
  "isinstance_RealWorldValueMapping (Item d) = True"
| "isinstance_RealWorldValueMapping (Seq xs) = False"

text \<open>
  Assigning a value to an attribute that holds a sequence (\<^verbatim>\<open>RealWorldValueMappingSequence\<close>)
  makes pydicom build a \<^verbatim>\<open>Sequence\<close> of it: the value has to be a sequence, empty or
  not, whose elements are all \<^verbatim>\<open>Dataset\<close> items; for any other value the assignment raises
  \<open>SequenceContentsTypeError\<close>. A mapping item is a \<^verbatim>\<open>Dataset\<close>.
\<close>

fun storable_sequence :: "pyobj \<Rightarrow> bool" where
  "storable_sequence (Seq xs) = list_all isinstance_RealWorldValueMapping xs"
| "storable_sequence (Item d) = False"

datatype CoordinateSystemNames = PATIENT | SLIDE

text \<open>
  The attributes of a source image that the constructor reads. \<open>src_NumberOfFrames\<close> is
  \<open>None\<close> when the image has no such attribute (\<^verbatim>\<open>hasattr\<close>). \<open>src_PixelMeasures\<close> and
  \<open>src_PlaneOrientation\<close> stand for what lines 464-494 read or build from the spacing and
  orientation attributes of the image.
\<close>

record source_image =
  src_StudyInstanceUID :: string
  src_SeriesInstanceUID :: string
  src_Rows :: nat
  src_Columns :: nat
  src_FrameOfReferenceUID :: string
  src_NumberOfFrames :: "nat option"
  src_has_ImageOrientationSlide :: bool
  src_has_ImageCenterPointCoordinatesSequence :: bool
  src_PixelMeasures :: PixelMeasuresSequence
  src_PlaneOrientation :: PlaneOrientationSequence

subsection \<open>Collaborators\<close>

text \<open>
  Functions of other modules whose results the constructor consumes; they are
  parameters of the model:
  \<^item> \<open>get_plane_positions_of_image\<close>, \<open>get_plane_positions_of_series\<close> and
    \<open>get_index_values\<close> of \<^verbatim>\<open>highdicom.pm.content.DimensionIndexSequence\<close> (built for a
    coordinate system); \<open>get_index_values\<close> gives the rows of the spatial index values;
  \<^item> \<open>frame_encode_frame\<close> is \<^verbatim>\<open>highdicom.frame.encode_frame\<close>, with the arguments in the
    order of the call: the array, transfer syntax, bits allocated, bits stored,
    photometric interpretation, pixel representation;
  \<^item> \<open>encapsulate\<close> is \<^verbatim>\<open>pydicom.encaps.encapsulate\<close>;
  \<^item> \<open>SOPClass_init\<close> is the constructor of the base class \<^verbatim>\<open>highdicom.base.SOPClass\<close>,
    called at lines 277-299 with the transfer syntax, attributes of the first source image
    and the identifiers that the model leaves out: \<open>None\<close> when it returns, else the
    exception it raises;
  \<^item> \<open>check_person_name\<close> is \<^verbatim>\<open>highdicom.valuerep.check_person_name\<close>, called at line 362
    with the name of the content creator when one is given: \<open>None\<close> when it returns, else
    the exception it raises.
\<close>

record collaborators =
  get_plane_positions_of_image ::
    "CoordinateSystemNames \<Rightarrow> source_image \<Rightarrow> error + PlanePositionSequence list"
  get_plane_positions_of_series ::
    "CoordinateSystemNames \<Rightarrow> source_image list \<Rightarrow> error + PlanePositionSequence list"
  get_index_values ::
    "CoordinateSystemNames \<Rightarrow> PlanePositionSequence list \<Rightarrow> error + int list list"
  frame_encode_frame ::
    "ndarray \<Rightarrow> string \<Rightarrow> nat \<Rightarrow> nat \<Rightarrow> string \<Rightarrow> nat \<Rightarrow> error + byte list"
  encapsulate :: "byte list list \<Rightarrow> byte list"
  SOPClass_init :: "string \<Rightarrow> source_image \<Rightarrow> error option"
  check_person_name :: "string \<Rightarrow> error option"

text \<open>
  \<^verbatim>\<open>x[i]\<close> for a natural index: a sequence raises IndexError past its end; a mapping
  item is a pydicom \<^verbatim>\<open>Dataset\<close>, which takes the integer for a tag that it does not
  have and raises KeyError.
\<close>

fun getitem :: "pyobj \<Rightarrow> nat \<Rightarrow> error + pyobj" where
  "getitem (Seq xs) i = (if i < length xs then Inr (xs ! i) else Inl IndexError)"
| "getitem (Item d) i = Inl KeyError"

subsection \<open>Transfer syntaxes\<close>

abbreviation ImplicitVRLittleEndian :: string where
  "ImplicitVRLittleEndian \<equiv> ''1.2.840.10008.1.2''"
abbreviation ExplicitVRLittleEndian :: string where
  "ExplicitVRLittleEndian \<equiv> ''1.2.840.10008.1.2.1''"
abbreviation ExplicitVRBigEndian :: string where
  "ExplicitVRBigEndian \<equiv> ''1.2.840.10008.1.2.2''"
abbreviation DeflatedExplicitVRLittleEndian :: string where
  "DeflatedExplicitVRLittleEndian \<equiv> ''1.2.840.10008.1.2.1.99''"
abbreviation JPEG2000Lossless :: string where
  "JPEG2000Lossless \<equiv> ''1.2.840.10008.1.2.4.90''"
abbreviation RLELossless :: string where
  "RLELossless \<equiv> ''1.2.840.10008.1.2.5''"

text \<open>
  \<^verbatim>\<open>UID.is_encapsulated\<close> of pydicom on a transfer syntax: false for the three
  uncompressed syntaxes and for the deflated one, whose data set is compressed as a
  whole and whose pixel data are not encapsulated; true for every other.
\<close>

definition is_encapsulated :: "string \<Rightarrow> bool" where
  "is_encapsulated uid =
     (uid \<notin> {ImplicitVRLittleEndian, ExplicitVRLittleEndian, ExplicitVRBigEndian,
             DeflatedExplicitVRLittleEndian})"

text \<open>Lines 240-255: the set against which the requested transfer syntax is checked.\<close>

definition supported_transfer_syntaxes :: "ndarray \<Rightarrow> string set" where
  "supported_transfer_syntaxes pixel_array =
     {ImplicitVRLittleEndian, ExplicitVRLittleEndian} \<union>
     (if kind (dtype pixel_array) \<in> {CHR ''u'', CHR ''i''}
      then {JPEG2000Lossless, RLELossless} else {})"

subsection \<open>The document\<close>

record transformation_item =
  RescaleIntercept :: real
  RescaleSlope :: int
  RescaleType :: string

record voi_lut_item =
  WindowCenter :: real
  WindowWidth :: real
  VOILUTFunction :: string

text \<open>The item of the Shared Functional Groups Sequence.\<close>

record sffg_item =
  sffg_RealWorldValueMappingSequence :: "pyobj option"
  sffg_PixelMeasuresSequence :: PixelMeasuresSequence
  sffg_PlaneOrientationSequence :: PlaneOrientationSequence
  PixelValueTransformationSequence :: "transformation_item list"
  FrameVOILUTSequence :: "voi_lut_item list"
  ParametricMapFrameTypeSequence :: "string list list"

text \<open>
  An item of the Per Frame Functional Groups Sequence. \<open>FrameContentSequence\<close> holds the
  \<^verbatim>\<open>DimensionIndexValues\<close> of its one item. An attribute that is not set is \<open>None\<close>.
\<close>

record pffg_item =
  DerivationImageSequence :: "pyobj list"
  PlanePositionSlideSequence :: "PlanePositionSequence option"
  PlanePositionSequence :: "PlanePositionSequence option"
  FrameContentSequence :: "int list list"
  RealWorldValueMappingSequence :: "pyobj option"

text \<open>
  The instance under construction (\<^verbatim>\<open>self\<close>): the attributes of the Image Pixel and
  Multi-frame Functional Groups modules that the module sets, and the transfer syntax
  that the base class stores in the file meta information.
\<close>

record parametric_map =
  TransferSyntaxUID :: string
  ImageType :: "string list"
  SamplesPerPixel :: nat
  PhotometricInterpretation :: string
  Rows :: nat
  Columns :: nat
  SharedFunctionalGroupsSequence :: "sffg_item list"
  BitsAllocated :: "nat option"
  BitsStored :: "nat option"
  HighBit :: "nat option"
  PixelRepresentation :: "nat option"
  NumberOfFrames :: "nat option"
  PerFrameFunctionalGroupsSequence :: "pffg_item list option"
  PixelData :: "byte list option"
  FloatPixelData :: "byte list option"
  DoubleFloatPixelData :: "byte list option"

text \<open>\<^verbatim>\<open>setattr(self, pixel_data_attr, pixel_data)\<close> for the names of \<open>pixel_data_type_map\<close>.\<close>

definition setattr_pixel_data :: "parametric_map \<Rightarrow> string \<Rightarrow> byte list \<Rightarrow> parametric_map" where
  "setattr_pixel_data self attr pixel_data =
     (if attr = ''PixelData'' then self\<lparr>PixelData := Some pixel_data\<rparr>
      else if attr = ''FloatPixelData'' then self\<lparr>FloatPixelData := Some pixel_data\<rparr>
      else if attr = ''DoubleFloatPixelData'' then self\<lparr>DoubleFloatPixelData := Some pixel_data\<rparr>
      else self)"

subsection \<open>Encoding one frame\<close>

text \<open>
  Lines 748-749, \<^verbatim>\<open>pixel_array.astype(np.int16) + 2 ** 16 / 2\<close> and then
  \<^verbatim>\<open>.astype(np.uint16)\<close>. The sum is an array of float64 whose elements are the integers
  \<open>v + 32768\<close> for the 16-bit values \<open>v\<close>; they lie in \<open>[0, 65535]\<close>, float64 holds them
  exactly and converts them to uint16 exactly. \<open>shifted\<close> is the list of these integers.
\<close>

definition rescale_signed :: "ndarray \<Rightarrow> ndarray" where
  "rescale_signed pixel_array =
     (let shifted = map (\<lambda>v. v + 2 ^ 16 div 2) (data (astype_int16 pixel_array))
      in pixel_array\<lparr>dtype := np_uint16, data := map (\<lambda>x. x mod 2 ^ 16) shifted\<rparr>)"

text \<open>
  \<^verbatim>\<open>ParametricMap._encode_frame\<close> (lines 710-751). The attributes of \<^verbatim>\<open>self\<close> that it
  reads may be missing; reading a missing attribute raises AttributeError.
\<close>

definition encode_frame :: "collaborators \<Rightarrow> parametric_map \<Rightarrow> ndarray \<Rightarrow> error + byte list" where
  "encode_frame env self pixel_array =
     (if ndim pixel_array \<noteq> 2 then Inl NotASinglePlane
      else if is_encapsulated (TransferSyntaxUID self) then
        (case BitsAllocated self of
           None \<Rightarrow> Inl (AttributeError ''BitsAllocated'')
         | Some bits_allocated \<Rightarrow>
        (case BitsStored self of
           None \<Rightarrow> Inl (AttributeError ''BitsStored'')
         | Some bits_stored \<Rightarrow>
        (case PixelRepresentation self of
           None \<Rightarrow> Inl (AttributeError ''PixelRepresentation'')
         | Some pixel_representation \<Rightarrow>
             frame_encode_frame env (astype_uint16 pixel_array) (TransferSyntaxUID self)
               bits_allocated bits_stored (PhotometricInterpretation self)
               pixel_representation)))
      else if dtype pixel_array = np_uint8 then Inr (tobytes (astype_uint16 pixel_array))
      else if kind (dtype pixel_array) = CHR ''i'' then Inr (tobytes (rescale_signed pixel_array))
      else Inr (tobytes pixel_array))"

subsection \<open>Frames and per-frame functional groups\<close>

text \<open>
  The body of the two loops of \<^verbatim>\<open>_create_frame_items\<close> (lines 607-635) for position \<open>i\<close>
  and channel \<open>j\<close>: the functional group item and the encoded frame. A subscript past the
  end of a sequence raises IndexError, and the assignment of lines 629-630 raises
  \<open>SequenceContentsTypeError\<close> when the mappings of the channel are not a sequence of items.
\<close>

definition frame_item ::
  "collaborators \<Rightarrow> parametric_map \<Rightarrow> ndarray \<Rightarrow> pyobj list \<Rightarrow> CoordinateSystemNames \<Rightarrow>
   PlanePositionSequence list \<Rightarrow> int list list \<Rightarrow> bool \<Rightarrow> nat \<Rightarrow> nat \<Rightarrow>
   error + (byte list \<times> pffg_item)" where
  "frame_item env self pixel_array real_world_value_mappings coordinate_system
     plane_positions spatial_index_values has_multiple_mappings i j =
     (if \<not> i < length plane_positions then Inl IndexError
      else if \<not> i < length spatial_index_values then Inl IndexError
      else if has_multiple_mappings \<and> \<not> j < length real_world_value_mappings then Inl IndexError
      else if has_multiple_mappings \<and> \<not> storable_sequence (real_world_value_mappings ! j)
        then Inl SequenceContentsTypeError
      else
        (let pffg_item =
           \<lparr>DerivationImageSequence = [],
            PlanePositionSlideSequence =
              (if coordinate_system = SLIDE then Some (plane_positions ! i) else None),
            PlanePositionSequence =
              (if coordinate_system = SLIDE then None else Some (plane_positions ! i)),
            FrameContentSequence = [spatial_index_values ! i],
            RealWorldValueMappingSequence =
              (if has_multiple_mappings then Some (real_world_value_mappings ! j) else None)\<rparr>;
             plane = getitem_plane pixel_array i j
         in case encode_frame env self plane of
              Inl e \<Rightarrow> Inl e
            | Inr frame \<Rightarrow> Inr (frame, pffg_item)))"

text \<open>
  The inner loop \<^verbatim>\<open>for j in range(...)\<close> and the outer loop \<^verbatim>\<open>for i in range(...)\<close>,
  appending to \<^verbatim>\<open>frames\<close> and \<^verbatim>\<open>per_frame_functional_groups\<close>; an exception ends both.
\<close>

fun channel_loop ::
  "(nat \<Rightarrow> error + (byte list \<times> pffg_item)) \<Rightarrow> nat list \<Rightarrow>
   byte list list \<times> pffg_item list \<Rightarrow> error + (byte list list \<times> pffg_item list)" where
  "channel_loop body [] acc = Inr acc"
| "channel_loop body (j # js) (frames, groups) =
     (case body j of
        Inl e \<Rightarrow> Inl e
      | Inr (frame, pffg_item) \<Rightarrow> channel_loop body js (frames @ [frame], groups @ [pffg_item]))"

fun position_loop ::
  "(nat \<Rightarrow> nat \<Rightarrow> error + (byte list \<times> pffg_item)) \<Rightarrow> nat list \<Rightarrow> nat list \<Rightarrow>
   byte list list \<times> pffg_item list \<Rightarrow> error + (byte list list \<times> pffg_item list)" where
  "position_loop body [] js acc = Inr acc"
| "position_loop body (i # ps) js acc =
     (case channel_loop (body i) js acc of
        Inl e \<Rightarrow> Inl e
      | Inr acc' \<Rightarrow> position_loop body ps js acc')"

text \<open>
  \<^verbatim>\<open>ParametricMap._create_frame_items\<close> (lines 565-637). \<^verbatim>\<open>pixel_array.shape[3]\<close> raises
  IndexError for an array of fewer than four axes.
\<close>

definition create_frame_items ::
  "collaborators \<Rightarrow> parametric_map \<Rightarrow> ndarray \<Rightarrow> PixelDataType \<Rightarrow> pyobj list \<Rightarrow>
   CoordinateSystemNames \<Rightarrow> PlanePositionSequence list \<Rightarrow>
   error + (byte list list \<times> pffg_item list)" where
  "create_frame_items env self pixel_array pixel_data_type real_world_value_mappings
     coordinate_system plane_positions =
     (case get_index_values env coordinate_system plane_positions of
        Inl e \<Rightarrow> Inl e
      | Inr spatial_index_values \<Rightarrow>
          if ndim pixel_array < 4 then Inl IndexError
          else
            (let has_multiple_mappings = (shape pixel_array ! 3 > 1)
             in position_loop
                  (frame_item env self pixel_array real_world_value_mappings coordinate_system
                     plane_positions spatial_index_values has_multiple_mappings)
                  [0..<shape pixel_array ! 0] [0..<shape pixel_array ! 3] ([], [])))"

subsection \<open>The constructor\<close>

text \<open>
  The parameters of \<^verbatim>\<open>__init__\<close> that decide the checks, the functional groups and the
  pixel data. The identifiers, the equipment attributes and the descriptions are copied
  into the header and are left out; what the base class makes of them is the
  collaborator \<open>SOPClass_init\<close>.
\<close>

record arguments =
  source_images :: "source_image list"
  pixel_array :: ndarray
  real_world_value_mappings :: "pyobj list"
  window_center :: real
  window_width :: real
  transfer_syntax_uid :: string
  content_creator_name :: "string option"
  pixel_measures :: "PixelMeasuresSequence option"
  plane_orientation :: "PlaneOrientationSequence option"
  plane_positions :: "PlanePositionSequence list option"

text \<open>Lines 212-221: the set of identifying tuples of the source images.\<close>

definition uniqueness_criteria ::
  "source_image list \<Rightarrow> (string \<times> string \<times> nat \<times> nat \<times> string) set" where
  "uniqueness_criteria images =
     (\<lambda>image. (src_StudyInstanceUID image, src_SeriesInstanceUID image, src_Rows image,
                src_Columns image, src_FrameOfReferenceUID image)) ` set images"

text \<open>Lines 208-262: the checks of the arguments, in the order of the code.\<close>

definition check_arguments :: "arguments \<Rightarrow> error + unit" where
  "check_arguments args =
     (if length (source_images args) = 0 then Inl NoSourceImage
      else if card (uniqueness_criteria (source_images args)) > 1
        then Inl InconsistentSourceImages
      else if src_NumberOfFrames (hd (source_images args)) \<noteq> None
              \<and> length (source_images args) > 1
        then Inl MultipleMultiframeSources
      else if transfer_syntax_uid args \<notin> supported_transfer_syntaxes (pixel_array args)
        then Inl (UnsupportedTransferSyntax (transfer_syntax_uid args))
      else if window_width args \<le> 0 then Inl InvalidWindowWidth
      else Inr ())"

text \<open>
  Lines 376-426, for the array \<open>a\<close> as line 265 left it: where the value mappings go.
  The result is the value of the shared item's \<^verbatim>\<open>RealWorldValueMappingSequence\<close> (\<open>None\<close>
  when the attribute is not set), the array with four axes and the mappings as a nested
  sequence. For a 2D or 3D array line 388 stores the mappings in the shared item before
  anything is checked, and pydicom refuses a sequence with an element that is no item.
  \<^verbatim>\<open>except IndexError\<close> turns an IndexError of the subscripts into the TypeError of the
  branch; any other exception passes through.
\<close>

definition place_mappings ::
  "ndarray \<Rightarrow> pyobj list \<Rightarrow> error + (pyobj option \<times> ndarray \<times> pyobj list)" where
  "place_mappings a mappings =
     (if ndim a \<in> {2, 3} then
        (if \<not> storable_sequence (Seq mappings) then Inl SequenceContentsTypeError
         else
        (case getitem (Seq mappings) 0 of
           Inl e \<Rightarrow> if e = IndexError then Inl FlatMappingsRequired else Inl e
         | Inr first \<Rightarrow>
             if \<not> isinstance_RealWorldValueMapping first then Inl FlatMappingsRequired
             else Inr (Some (Seq mappings),
                       (if ndim a = 2 then newaxis_last (newaxis_first a)
                        else if ndim a = 3 then newaxis_last a
                        else a),
                       [Seq mappings])))
      else if ndim a = 4 then
        (case (case getitem (Seq mappings) 0 of
                 Inl e \<Rightarrow> Inl e
               | Inr first \<Rightarrow> getitem first 0) of
           Inl e \<Rightarrow> if e = IndexError then Inl NestedMappingsRequired else Inl e
         | Inr first_first \<Rightarrow>
             if \<not> isinstance_RealWorldValueMapping first_first then Inl NestedMappingsRequired
             else Inr (None, a, mappings))
      else Inl InvalidArrayRank)"

text \<open>Lines 439-461: the plane positions, given or taken from the source images.\<close>

definition resolve_plane_positions ::
  "collaborators \<Rightarrow> arguments \<Rightarrow> CoordinateSystemNames \<Rightarrow> bool \<Rightarrow> ndarray \<Rightarrow>
   error + PlanePositionSequence list" where
  "resolve_plane_positions env args coordinate_system is_multiframe a =
     (case plane_positions args of
        None \<Rightarrow>
          (case (if is_multiframe
                 then get_plane_positions_of_image env coordinate_system
                        (hd (source_images args))
                 else get_plane_positions_of_series env coordinate_system
                        (source_images args)) of
             Inl e \<Rightarrow> Inl e
           | Inr positions \<Rightarrow>
               if length positions \<noteq> shape a ! 0 then Inl SourcePlaneCountMismatch
               else Inr positions)
      | Some positions \<Rightarrow>
          if length positions \<noteq> shape a ! 0 then Inl SuppliedPlaneCountMismatch
          else Inr positions)"

text \<open>Lines 501-513: the item of the Pixel Value Transformation Sequence.\<close>

definition pixel_value_transformation :: "ndarray \<Rightarrow> transformation_item" where
  "pixel_value_transformation a =
     (if kind (dtype a) = CHR ''i''
      then \<lparr>RescaleIntercept = 2 ^ 16 / 2, RescaleSlope = 1, RescaleType = ''US''\<rparr>
      else \<lparr>RescaleIntercept = 0, RescaleSlope = 1, RescaleType = ''US''\<rparr>)"

text \<open>Lines 535-544: the bit depth attributes for the pixel data type.\<close>

definition set_bits :: "PixelDataType \<Rightarrow> parametric_map \<Rightarrow> parametric_map" where
  "set_bits pixel_data_type self =
     (if pixel_data_type = SHORT \<or> pixel_data_type = USHORT then
        (let self1 = self\<lparr>BitsAllocated := Some 16\<rparr>;
             self2 = self1\<lparr>BitsStored := BitsAllocated self1\<rparr>;
             self3 = self2\<lparr>HighBit := map_option (\<lambda>b. b - 1) (BitsStored self2)\<rparr>
         in self3\<lparr>PixelRepresentation := Some 0\<rparr>)
      else if pixel_data_type = SINGLE then self\<lparr>BitsAllocated := Some 32\<rparr>
      else if pixel_data_type = DOUBLE then self\<lparr>BitsAllocated := Some 64\<rparr>
      else self)"

text \<open>
  Lines 376 and 498-526: the item of the Shared Functional Groups Sequence, for the first
  source image, the value \<open>shared_mappings\<close> that \<open>place_mappings\<close> gave and the array with
  four axes.
\<close>

definition shared_functional_groups_item ::
  "arguments \<Rightarrow> source_image \<Rightarrow> pyobj option \<Rightarrow> ndarray \<Rightarrow> sffg_item" where
  "shared_functional_groups_item args src_img shared_mappings a =
     \<lparr>sffg_RealWorldValueMappingSequence = shared_mappings,
      sffg_PixelMeasuresSequence =
        (case pixel_measures args of
           None \<Rightarrow> src_PixelMeasures src_img | Some given \<Rightarrow> given),
      sffg_PlaneOrientationSequence =
        (case plane_orientation args of
           None \<Rightarrow> src_PlaneOrientation src_img | Some given \<Rightarrow> given),
      PixelValueTransformationSequence = [pixel_value_transformation a],
      FrameVOILUTSequence =
        [\<lparr>WindowCenter = window_center args, WindowWidth = window_width args,
          VOILUTFunction = ''LINEAR_EXACT''\<rparr>],
      ParametricMapFrameTypeSequence = [[''DERIVED'', ''PRIMARY'']]\<rparr>"

text \<open>
  The instance as lines 277-547 leave it, before the frames are made: the attributes set
  so far, and the bit depths of \<open>set_bits\<close>.
\<close>

definition instance_before_frames ::
  "arguments \<Rightarrow> ndarray \<Rightarrow> sffg_item \<Rightarrow> PixelDataType \<Rightarrow> parametric_map" where
  "instance_before_frames args a sffg_item pixel_data_type =
     set_bits pixel_data_type
       \<lparr>TransferSyntaxUID = transfer_syntax_uid args,
        ImageType = [''DERIVED'', ''PRIMARY''],
        SamplesPerPixel = 1,
        PhotometricInterpretation = ''MONOCHROME2'',
        Rows = shape a ! 1,
        Columns = shape a ! 2,
        SharedFunctionalGroupsSequence = [sffg_item],
        BitsAllocated = None, BitsStored = None, HighBit = None,
        PixelRepresentation = None,
        NumberOfFrames = None, PerFrameFunctionalGroupsSequence = None,
        PixelData = None, FloatPixelData = None, DoubleFloatPixelData = None\<rparr>"

text \<open>
  Lines 228-229 and 301-306: whether the first source image is a multi-frame image, and
  the coordinate system.
\<close>

definition is_multiframe :: "source_image \<Rightarrow> bool" where
  "is_multiframe src_img = (src_NumberOfFrames src_img \<noteq> None)"

definition coordinate_system_of :: "source_image \<Rightarrow> CoordinateSystemNames" where
  "coordinate_system_of src_img =
     (if src_has_ImageOrientationSlide src_img
         \<or> src_has_ImageCenterPointCoordinatesSequence src_img
      then SLIDE else PATIENT)"

text \<open>
  \<^verbatim>\<open>ParametricMap.__init__\<close>: the instance, or the first exception raised. \<open>a3\<close> is the
  array after lines 264-265, \<open>a4\<close> the array with four axes. The calls of the base class
  constructor (line 277) and of \<^verbatim>\<open>check_person_name\<close> (line 362) come between the checks of
  the arguments and the value mappings. The attributes of the source image that the
  constructor reads without asking are fields of \<open>source_image\<close>: an image without them is
  outside the type.
\<close>

definition ParametricMap_init :: "collaborators \<Rightarrow> arguments \<Rightarrow> error + parametric_map" where
  "ParametricMap_init env args =
     (case check_arguments args of
        Inl e \<Rightarrow> Inl e
      | Inr _ \<Rightarrow>
     (let src_img = hd (source_images args);
          a3 = (if ndim (pixel_array args) = 2 then newaxis_first (pixel_array args)
                else pixel_array args);
          coordinate_system = coordinate_system_of src_img
      in case SOPClass_init env (transfer_syntax_uid args) src_img of
           Some e \<Rightarrow> Inl e
         | None \<Rightarrow>
     (case (case content_creator_name args of
              None \<Rightarrow> None
            | Some creator \<Rightarrow> check_person_name env creator) of
        Some e \<Rightarrow> Inl e
      | None \<Rightarrow>
     (case place_mappings a3 (real_world_value_mappings args) of
           Inl e \<Rightarrow> Inl e
         | Inr (shared_mappings, a4, mappings) \<Rightarrow>
      if length mappings \<noteq> shape a4 ! 3 then Inl MappingCountMismatch
      else
     (case resolve_plane_positions env args coordinate_system (is_multiframe src_img) a4 of
        Inl e \<Rightarrow> Inl e
      | Inr positions \<Rightarrow>
     (case get_pixel_data_type_and_attr a4 of
        Inl e \<Rightarrow> Inl e
      | Inr (pixel_data_type, pixel_data_attr) \<Rightarrow>
     (let self = instance_before_frames args a4
                   (shared_functional_groups_item args src_img shared_mappings a4)
                   pixel_data_type
      in case create_frame_items env self a4 pixel_data_type mappings coordinate_system
                positions of
           Inl e \<Rightarrow> Inl e
         | Inr (frames, per_frame_func_groups) \<Rightarrow>
     (let self' = self\<lparr>NumberOfFrames := Some (length frames),
                        PerFrameFunctionalGroupsSequence := Some per_frame_func_groups\<rparr>;
          pixel_data = (if is_encapsulated (TransferSyntaxUID self')
                        then encapsulate env frames else concat frames)
      in Inr (setattr_pixel_data self' pixel_data_attr pixel_data)))))))))"

subsection \<open>Notions of the specification\<close>

text \<open>
  The shape \<open>(n, r, c, m)\<close> that the docstring of the constructor gives to an array of
  two, three or four axes: \<open>(r, c)\<close> is one position and one channel, \<open>(n, r, c)\<close> is \<open>n\<close>
  positions and one channel.
\<close>

definition as_4d :: "ndarray \<Rightarrow> ndarray" where
  "as_4d a =
     (if ndim a = 2 then a\<lparr>shape := [1] @ shape a @ [1]\<rparr>
      else if ndim a = 3 then a\<lparr>shape := shape a @ [1]\<rparr>
      else a)"

definition num_positions :: "arguments \<Rightarrow> nat" where
  "num_positions args = shape (as_4d (pixel_array args)) ! 0"

definition num_channels :: "arguments \<Rightarrow> nat" where
  "num_channels args = shape (as_4d (pixel_array args)) ! 3"

text \<open>The failure classes of the specification, as sets of the exceptions of the code.\<close>

definition is_UnsupportedElementType :: "error \<Rightarrow> bool" where
  "is_UnsupportedElementType e =
     (e \<in> {UnsupportedFloatType, UnsupportedUnsignedType, UnsupportedSignedType,
           UnsupportedDataType})"

definition is_MappingShapeMismatch :: "error \<Rightarrow> bool" where
  "is_MappingShapeMismatch e =
     (e \<in> {FlatMappingsRequired, NestedMappingsRequired, MappingCountMismatch})"

definition is_PlaneCountMismatch :: "error \<Rightarrow> bool" where
  "is_PlaneCountMismatch e = (e \<in> {SourcePlaneCountMismatch, SuppliedPlaneCountMismatch})"

definition is_UnsupportedStorageSyntax :: "error \<Rightarrow> bool" where
  "is_UnsupportedStorageSyntax e = (\<exists>uid. e = UnsupportedTransferSyntax uid)"

text \<open>
  The pixel data of an instance: the value of whichever of the three pixel data
  attributes is set.
\<close>

definition pixel_data_of :: "parametric_map \<Rightarrow> byte list option" where
  "pixel_data_of self =
     (case PixelData self of
        Some b \<Rightarrow> Some b
      | None \<Rightarrow> (case FloatPixelData self of
                   Some b \<Rightarrow> Some b
                 | None \<Rightarrow> DoubleFloatPixelData self))"

text \<open>
  Re-reading a buffer as unsigned 16-bit samples, least significant byte first
  (\<^verbatim>\<open>numpy.frombuffer(buffer, dtype=numpy.uint16)\<close>).
\<close>

fun frombuffer_uint16 :: "byte list \<Rightarrow> int list" where
  "frombuffer_uint16 (lo # hi # rest) = (uint lo + 256 * uint hi) # frombuffer_uint16 rest"
| "frombuffer_uint16 rest = []"

text \<open>
  The samples of an array with four axes in the order of the frames: position-major,
  channel-minor, and row-major inside a frame.
\<close>

definition samples_in_frame_order :: "ndarray \<Rightarrow> int list" where
  "samples_in_frame_order a =
     concat (map (\<lambda>i. concat (map (\<lambda>j. data (getitem_plane a i j)) [0..<shape a ! 3]))
       [0..<shape a ! 0])"

text \<open>
  The plane positions of a construction: those given, or else those that the collaborator
  derives from the source image or images.
\<close>

definition plane_positions_in_use ::
  "collaborators \<Rightarrow> arguments \<Rightarrow> error + PlanePositionSequence list" where
  "plane_positions_in_use env args =
     (case plane_positions args of
        Some positions \<Rightarrow> Inr positions
      | None \<Rightarrow>
          if is_multiframe (hd (source_images args))
          then get_plane_positions_of_image env
                 (coordinate_system_of (hd (source_images args))) (hd (source_images args))
          else get_plane_positions_of_series env
                 (coordinate_system_of (hd (source_images args))) (source_images args))"

text \<open>
  The source images pass the checks of lines 208-238: there is one, they agree on study,
  series, size and frame of reference, and a multi-frame image comes alone.
\<close>

definition source_images_ok :: "arguments \<Rightarrow> bool" where
  "source_images_ok args =
     (length (source_images args) \<noteq> 0
      \<and> \<not> card (uniqueness_criteria (source_images args)) > 1
      \<and> \<not> (src_NumberOfFrames (hd (source_images args)) \<noteq> None
            \<and> length (source_images args) > 1))"

text \<open>
  The exception of the first step before the value mappings are looked at (lines 208-363)
  that fails, if one does: the checks of the source images, of the transfer syntax and of
  the window width, the constructor of the base class, the check of the content creator's
  name.
\<close>

definition failure_before_mappings :: "collaborators \<Rightarrow> arguments \<Rightarrow> error option" where
  "failure_before_mappings env args =
     (case check_arguments args of
        Inl e \<Rightarrow> Some e
      | Inr _ \<Rightarrow>
          (case SOPClass_init env (transfer_syntax_uid args) (hd (source_images args)) of
             Some e \<Rightarrow> Some e
           | None \<Rightarrow>
               (case content_creator_name args of
                  None \<Rightarrow> None
                | Some creator \<Rightarrow> check_person_name env creator)))"

text \<open>
  The exception of the first step before the plane positions are looked at (lines 208-437)
  that fails, if one does: the steps above, then for a 2D or 3D array the storing of the
  mappings in the shared item, the form that the rank of the array asks of the mappings,
  the rank itself, and the number of mappings against the number of channels.
\<close>

definition failure_before_plane_positions :: "collaborators \<Rightarrow> arguments \<Rightarrow> error option" where
  "failure_before_plane_positions env args =
     (case failure_before_mappings env args of
        Some e \<Rightarrow> Some e
      | None \<Rightarrow>
          (case place_mappings
                  (if ndim (pixel_array args) = 2 then newaxis_first (pixel_array args)
                   else pixel_array args)
                  (real_world_value_mappings args) of
             Inl e \<Rightarrow> Some e
           | Inr (shared_mappings, a4, mappings) \<Rightarrow>
               if length mappings \<noteq> shape a4 ! 3 then Some MappingCountMismatch else None))"

text \<open>
  A flat sequence holds mapping items only, a nested sequence holds sequences only; the
  empty sequence is both.
\<close>

definition flat_sequence :: "pyobj list \<Rightarrow> bool" where
  "flat_sequence xs = list_all isinstance_RealWorldValueMapping xs"

definition nested_sequence :: "pyobj list \<Rightarrow> bool" where
  "nested_sequence xs = list_all (\<lambda>x. \<not> isinstance_RealWorldValueMapping x) xs"

subsection \<open>Concrete inputs\<close>

text \<open>
  One single-frame source image in the patient coordinate system, and collaborators that
  always answer: positions and index values by counting, a frame codec that writes the
  samples it is given, an encapsulation that concatenates.
\<close>

definition example_image :: source_image where
  "example_image =
     \<lparr>src_StudyInstanceUID = ''1.2.3'', src_SeriesInstanceUID = ''1.2.3.4'',
      src_Rows = 4, src_Columns = 4, src_FrameOfReferenceUID = ''1.2.3.5'',
      src_NumberOfFrames = None,
      src_has_ImageOrientationSlide = False,
      src_has_ImageCenterPointCoordinatesSequence = False,
      src_PixelMeasures = PixelSpacing [1, 1],
      src_PlaneOrientation = ImageOrientation [1, 0, 0, 0, 1, 0]\<rparr>"

definition example_env :: collaborators where
  "example_env =
     \<lparr>get_plane_positions_of_image = (\<lambda>cs image. Inr [ImagePosition [0, 0, 0]]),
      get_plane_positions_of_series =
        (\<lambda>cs images. Inr (map (\<lambda>image. ImagePosition [0, 0, 0]) images)),
      get_index_values =
        (\<lambda>cs positions. Inr (map (\<lambda>k. [int k + 1]) [0..<length positions])),
      frame_encode_frame =
        (\<lambda>a uid bits_allocated bits_stored photometric representation. Inr (tobytes a)),
      encapsulate = concat,
      SOPClass_init = (\<lambda>uid image. None),
      check_person_name = (\<lambda>creator. None)\<rparr>"

text \<open>Two positions and two channels of one signed 16-bit sample each, stored natively.\<close>

definition example_args :: arguments where
  "example_args =
     \<lparr>source_images = [example_image],
      pixel_array = \<lparr>dtype = np_int16, shape = [2, 1, 1, 2], data = [-1, 2, -32768, 32767]\<rparr>,
      real_world_value_mappings = [Seq [Item (LUTLabel ''a'')], Seq [Item (LUTLabel ''b'')]],
      window_center = 0, window_width = 65536,
      transfer_syntax_uid = ExplicitVRLittleEndian,
      content_creator_name = None,
      pixel_measures = None, plane_orientation = None,
      plane_positions = Some [ImagePosition [0, 0, 0], ImagePosition [0, 0, 1]]\<rparr>"

text \<open>One signed 16-bit sample \<open>-1\<close> in a 2D array, stored with JPEG 2000 Lossless.\<close>

definition example_args_encapsulated :: arguments where
  "example_args_encapsulated =
     \<lparr>source_images = [example_image],
      pixel_array = \<lparr>dtype = np_int16, shape = [1, 1], data = [-1]\<rparr>,
      real_world_value_mappings = [Item (LUTLabel ''a'')],
      window_center = 0, window_width = 65536,
      transfer_syntax_uid = JPEG2000Lossless,
      content_creator_name = None,
      pixel_measures = None, plane_orientation = None,
      plane_positions = None\<rparr>"

text \<open>A 4D array of one position and one channel, with its mappings as a nested sequence.\<close>

definition example_args_single_channel_4d :: arguments where
  "example_args_single_channel_4d =
     \<lparr>source_images = [example_image],
      pixel_array = \<lparr>dtype = np_uint8, shape = [1, 1, 1, 1], data = [7]\<rparr>,
      real_world_value_mappings = [Seq [Item (LUTLabel ''a'')]],
      window_center = 128, window_width = 256,
      transfer_syntax_uid = ExplicitVRLittleEndian,
      content_creator_name = None,
      pixel_measures = None, plane_orientation = None,
      plane_positions = None\<rparr>"

text \<open>An array of shape \<open>(2, 5, 5, 3)\<close> with mappings for two channels only.\<close>

definition example_args_two_of_three :: arguments where
  "example_args_two_of_three =
     \<lparr>source_images = [example_image],
      pixel_array = \<lparr>dtype = np_uint8, shape = [2, 5, 5, 3], data = replicate 150 0\<rparr>,
      real_world_value_mappings = [Seq [Item (LUTLabel ''a'')], Seq [Item (LUTLabel ''b'')]],
      window_center = 128, window_width = 256,
      transfer_syntax_uid = ExplicitVRLittleEndian,
      content_creator_name = None,
      pixel_measures = None, plane_orientation = None,
      plane_positions = Some [ImagePosition [0, 0, 0], ImagePosition [0, 0, 1]]\<rparr>"

text \<open>
  An unsigned 8-bit array of shape \<open>(3, 4, 4, 1)\<close> with three plane positions and the
  mappings of its one channel.
\<close>

definition example_args_uint8 :: arguments where
  "example_args_uint8 =
     \<lparr>source_images = [example_image],
      pixel_array =
        \<lparr>dtype = np_uint8, shape = [3, 4, 4, 1],
         data =
          [0, 5, 10, 15, 20, 25, 30, 35, 40, 45, 50, 55, 60, 65, 70, 75, 80, 85,
           90, 95, 100, 105, 110, 115, 120, 125, 130, 135, 140, 145, 150, 155,
           160, 165, 170, 175, 180, 185, 190, 195, 200, 205, 210, 215, 220, 225,
           230, 235]\<rparr>,
      real_world_value_mappings = [Seq [Item (LUTLabel ''a'')]],
      window_center = 128, window_width = 256,
      transfer_syntax_uid = ExplicitVRLittleEndian,
      content_creator_name = None,
      pixel_measures = None, plane_orientation = None,
      plane_positions =
        Some [ImagePosition [0, 0, 0], ImagePosition [0, 0, 1], ImagePosition [0, 0, 2]]\<rparr>"

section \<open>Properties\<close>

subsection \<open>Unfolding the model\<close>

lemmas model_defs =
  ParametricMap_init_def check_arguments_def uniqueness_criteria_def
  supported_transfer_syntaxes_def place_mappings_def resolve_plane_positions_def
  get_pixel_data_type_and_attr_def instance_before_frames_def set_bits_def
  shared_functional_groups_item_def pixel_value_transformation_def
  create_frame_items_def frame_item_def encode_frame_def getitem_plane_def
  rescale_signed_def astype_int16_def astype_uint16_def tobytes_def element_bytes_def
  setattr_pixel_data_def is_encapsulated_def ndim_def newaxis_first_def newaxis_last_def
  is_multiframe_def coordinate_system_of_def

lemmas example_defs = example_args_def example_env_def example_image_def
  example_args_encapsulated_def example_args_single_channel_4d_def
  example_args_two_of_three_def example_args_uint8_def

subsection \<open>What a successful construction went through\<close>

lemma init_Inr:
  assumes "ParametricMap_init env args = Inr doc"
  shows "\<exists>shared a4 mappings positions pdt attr frames groups.
     check_arguments args = Inr () \<and>
     place_mappings (if ndim (pixel_array args) = 2 then newaxis_first (pixel_array args)
                         else pixel_array args) (real_world_value_mappings args)
       = Inr (shared, a4, mappings) \<and>
     length mappings = shape a4 ! 3 \<and>
     resolve_plane_positions env args (coordinate_system_of (hd (source_images args)))
       (is_multiframe (hd (source_images args))) a4 = Inr positions \<and>
     get_pixel_data_type_and_attr a4 = Inr (pdt, attr) \<and>
     create_frame_items env
       (instance_before_frames args a4
          (shared_functional_groups_item args (hd (source_images args)) shared a4) pdt)
       a4 pdt mappings (coordinate_system_of (hd (source_images args))) positions
       = Inr (frames, groups) \<and>
     doc = setattr_pixel_data
             ((instance_before_frames args a4
                (shared_functional_groups_item args (hd (source_images args)) shared a4) pdt)
                \<lparr>NumberOfFrames := Some (length frames),
                  PerFrameFunctionalGroupsSequence := Some groups\<rparr>)
             attr
             (if is_encapsulated (TransferSyntaxUID (instance_before_frames args a4
                (shared_functional_groups_item args (hd (source_images args)) shared a4) pdt))
              then encapsulate env frames else concat frames)"
  using assms unfolding ParametricMap_init_def Let_def
  by (auto split: sum.splits prod.splits option.splits if_splits)

lemma place_mappings_Inr:
  assumes "place_mappings (if ndim a = 2 then newaxis_first a else a) ms
             = Inr (shared, a4, mappings)"
  shows "a4 = as_4d a \<and> ndim a4 = 4 \<and>
         ((ndim a \<in> {2, 3} \<and> shared = Some (Seq ms) \<and> mappings = [Seq ms] \<and> shape a4 ! 3 = 1)
          \<or> (ndim a = 4 \<and> shared = None \<and> mappings = ms))"
  using assms unfolding place_mappings_def as_4d_def ndim_def newaxis_first_def newaxis_last_def
  by (auto split: sum.splits if_splits simp: nth_append)

lemma get_pixel_data_type_and_attr_Inr:
  assumes "get_pixel_data_type_and_attr a = Inr (pdt, attr)"
  shows "(dtype a \<in> {np_int8, np_int16} \<and> pdt = SHORT \<and> attr = ''PixelData'')
       \<or> (dtype a \<in> {np_uint8, np_uint16} \<and> pdt = USHORT \<and> attr = ''PixelData'')
       \<or> (dtype a = np_float32 \<and> pdt = SINGLE \<and> attr = ''FloatPixelData'')
       \<or> (dtype a = np_float64 \<and> pdt = DOUBLE \<and> attr = ''DoubleFloatPixelData'')"
  using assms unfolding get_pixel_data_type_and_attr_def
  by (cases "dtype a") (simp_all split: if_splits)

lemma dtype_as_4d: "dtype (as_4d a) = dtype a"
  by (simp add: as_4d_def)

lemma data_as_4d: "data (as_4d a) = data a"
  by (simp add: as_4d_def)

subsection \<open>The loops\<close>

lemma channel_loop_Inr:
  "channel_loop body js (F, G) = Inr (F', G') \<Longrightarrow>
   \<exists>fs gs. F' = F @ fs \<and> G' = G @ gs \<and> length fs = length js \<and> length gs = length js \<and>
     (\<forall>t<length js. body (js ! t) = Inr (fs ! t, gs ! t))"
proof (induction js arbitrary: F G)
  case Nil
  then show ?case by simp
next
  case (Cons j js)
  from Cons.prems obtain f g where b: "body j = Inr (f, g)"
    and r: "channel_loop body js (F @ [f], G @ [g]) = Inr (F', G')"
    by (auto split: sum.splits prod.splits)
  from Cons.IH [OF r] obtain fs gs where
    F': "F' = (F @ [f]) @ fs" and G': "G' = (G @ [g]) @ gs"
    and l: "length fs = length js" "length gs = length js"
    and a: "\<forall>t<length js. body (js ! t) = Inr (fs ! t, gs ! t)"
    by blast
  have "\<forall>t<length (j # js). body ((j # js) ! t) = Inr ((f # fs) ! t, (g # gs) ! t)"
    using a b by (auto simp: nth_Cons split: nat.splits)
  with F' G' l show ?case
    by (intro exI [of _ "f # fs"] exI [of _ "g # gs"]) simp
qed

lemma position_loop_Inr:
  "position_loop body ps js (F, G) = Inr (F', G') \<Longrightarrow>
   \<exists>fs gs. F' = F @ fs \<and> G' = G @ gs \<and>
     length fs = length ps * length js \<and> length gs = length ps * length js \<and>
     (\<forall>s<length ps. \<forall>t<length js.
        body (ps ! s) (js ! t) = Inr (fs ! (s * length js + t), gs ! (s * length js + t)))"
proof (induction ps arbitrary: F G)
  case Nil
  then show ?case by simp
next
  case (Cons i ps)
  from Cons.prems obtain F1 G1 where
    c: "channel_loop (body i) js (F, G) = Inr (F1, G1)"
    and r: "position_loop body ps js (F1, G1) = Inr (F', G')"
    by (auto split: sum.splits)
  from channel_loop_Inr [OF c] obtain fs1 gs1 where
    F1: "F1 = F @ fs1" and G1: "G1 = G @ gs1"
    and l1: "length fs1 = length js" "length gs1 = length js"
    and a1: "\<forall>t<length js. body i (js ! t) = Inr (fs1 ! t, gs1 ! t)"
    by blast
  from Cons.IH [OF r] obtain fs gs where
    F': "F' = F1 @ fs" and G': "G' = G1 @ gs"
    and l: "length fs = length ps * length js" "length gs = length ps * length js"
    and a: "\<forall>s<length ps. \<forall>t<length js.
        body (ps ! s) (js ! t) = Inr (fs ! (s * length js + t), gs ! (s * length js + t))"
    by blast
  have "\<forall>s<length (i # ps). \<forall>t<length js.
        body ((i # ps) ! s) (js ! t)
          = Inr ((fs1 @ fs) ! (s * length js + t), (gs1 @ gs) ! (s * length js + t))"
  proof (intro allI impI)
    fix s t
    assume s: "s < length (i # ps)" and t: "t < length js"
    show "body ((i # ps) ! s) (js ! t)
          = Inr ((fs1 @ fs) ! (s * length js + t), (gs1 @ gs) ! (s * length js + t))"
    proof (cases s)
      case 0
      with a1 t l1 show ?thesis by (simp add: nth_append)
    next
      case (Suc s')
      with s have s': "s' < length ps" by simp
      have "\<not> s * length js + t < length js" using Suc by simp
      moreover have "s * length js + t - length js = s' * length js + t" using Suc by simp
      ultimately show ?thesis using a s' t l1 Suc by (simp add: nth_append)
    qed
  qed
  with F1 G1 F' G' l l1 show ?case
    by (intro exI [of _ "fs1 @ fs"] exI [of _ "gs1 @ gs"]) simp
qed

lemma create_frame_items_Inr:
  assumes "create_frame_items env self a pdt ms cs pps = Inr (frames, groups)"
  shows "\<exists>siv. get_index_values env cs pps = Inr siv \<and> 4 \<le> ndim a \<and>
     length frames = shape a ! 0 * shape a ! 3 \<and>
     length groups = shape a ! 0 * shape a ! 3 \<and>
     (\<forall>i < shape a ! 0. \<forall>j < shape a ! 3.
        frame_item env self a ms cs pps siv (1 < shape a ! 3) i j
          = Inr (frames ! (i * shape a ! 3 + j), groups ! (i * shape a ! 3 + j)))"
proof -
  from assms obtain siv where siv: "get_index_values env cs pps = Inr siv"
    and nd: "4 \<le> ndim a"
    and pl: "position_loop (frame_item env self a ms cs pps siv (1 < shape a ! 3))
               [0..<shape a ! 0] [0..<shape a ! 3] ([], []) = Inr (frames, groups)"
    unfolding create_frame_items_def Let_def
    by (auto split: sum.splits if_splits)
  from position_loop_Inr [OF pl] siv nd show ?thesis by auto
qed

subsection \<open>Resolution of the representation\<close>

text \<open>
  C5. \<^verbatim>\<open>_get_pixel_data_type_and_attr\<close> is a total function of the element type of the
  array: int8 and int16 give SHORT, uint8 and uint16 give USHORT, float32 gives SINGLE,
  float64 gives DOUBLE, and every other element type gives an exception of the class
  unsupported element type. The constructor calls it once; an instance that it returns
  has 16 bits allocated, 16 bits stored and high bit 15 for the two integer types, 32
  bits allocated for SINGLE and 64 for DOUBLE, and for the floating types bits stored
  and high bit are not set.
\<close>

theorem C5_representation_resolution:
  "get_pixel_data_type_and_attr a =
     (if dtype a = np_int8 \<or> dtype a = np_int16 then Inr (SHORT, ''PixelData'')
      else if dtype a = np_uint8 \<or> dtype a = np_uint16 then Inr (USHORT, ''PixelData'')
      else if dtype a = np_float32 then Inr (SINGLE, ''FloatPixelData'')
      else if dtype a = np_float64 then Inr (DOUBLE, ''DoubleFloatPixelData'')
      else Inl (if kind (dtype a) = CHR ''f'' then UnsupportedFloatType
                else if kind (dtype a) = CHR ''u'' then UnsupportedUnsignedType
                else if kind (dtype a) = CHR ''i'' then UnsupportedSignedType
                else UnsupportedDataType))
   \<and> is_UnsupportedElementType UnsupportedFloatType
   \<and> is_UnsupportedElementType UnsupportedUnsignedType
   \<and> is_UnsupportedElementType UnsupportedSignedType
   \<and> is_UnsupportedElementType UnsupportedDataType
   \<and> (ParametricMap_init env args = Inr doc \<longrightarrow>
        (BitsAllocated doc, BitsStored doc, HighBit doc) =
          (if dtype (pixel_array args) \<in> {np_int8, np_int16, np_uint8, np_uint16}
             then (Some 16, Some 16, Some 15)
           else if dtype (pixel_array args) = np_float32 then (Some 32, None, None)
           else (Some 64, None, None))
        \<and> dtype (pixel_array args)
            \<in> {np_int8, np_int16, np_uint8, np_uint16, np_float32, np_float64})"
proof -
  have resolve: "get_pixel_data_type_and_attr a =
     (if dtype a = np_int8 \<or> dtype a = np_int16 then Inr (SHORT, ''PixelData'')
      else if dtype a = np_uint8 \<or> dtype a = np_uint16 then Inr (USHORT, ''PixelData'')
      else if dtype a = np_float32 then Inr (SINGLE, ''FloatPixelData'')
      else if dtype a = np_float64 then Inr (DOUBLE, ''DoubleFloatPixelData'')
      else Inl (if kind (dtype a) = CHR ''f'' then UnsupportedFloatType
                else if kind (dtype a) = CHR ''u'' then UnsupportedUnsignedType
                else if kind (dtype a) = CHR ''i'' then UnsupportedSignedType
                else UnsupportedDataType))"
    unfolding get_pixel_data_type_and_attr_def by (cases "dtype a") simp_all
  have bits: "(BitsAllocated doc, BitsStored doc, HighBit doc) =
          (if dtype (pixel_array args) \<in> {np_int8, np_int16, np_uint8, np_uint16}
             then (Some 16, Some 16, Some 15)
           else if dtype (pixel_array args) = np_float32 then (Some 32, None, None)
           else (Some 64, None, None))
        \<and> dtype (pixel_array args)
            \<in> {np_int8, np_int16, np_uint8, np_uint16, np_float32, np_float64}"
    if ok: "ParametricMap_init env args = Inr doc"
  proof -
    from init_Inr [OF ok] obtain shared a4 mappings pdt attr frames groups where
      pm: "place_mappings (if ndim (pixel_array args) = 2
             then newaxis_first (pixel_array args) else pixel_array args)
             (real_world_value_mappings args) = Inr (shared, a4, mappings)"
      and ty: "get_pixel_data_type_and_attr a4 = Inr (pdt, attr)"
      and doc: "doc = setattr_pixel_data
             ((instance_before_frames args a4
                (shared_functional_groups_item args (hd (source_images args)) shared a4) pdt)
                \<lparr>NumberOfFrames := Some (length frames),
                  PerFrameFunctionalGroupsSequence := Some groups\<rparr>)
             attr
             (if is_encapsulated (TransferSyntaxUID (instance_before_frames args a4
                (shared_functional_groups_item args (hd (source_images args)) shared a4) pdt))
              then encapsulate env frames else concat frames)"
      by blast
    from place_mappings_Inr [OF pm] have "dtype a4 = dtype (pixel_array args)"
      by (simp add: dtype_as_4d)
    with get_pixel_data_type_and_attr_Inr [OF ty] show ?thesis
      unfolding doc by (auto simp: setattr_pixel_data_def instance_before_frames_def set_bits_def)
  qed
  from resolve bits show ?thesis
    by (simp add: is_UnsupportedElementType_def)
qed

theorem C5_representation_resolution_witness:
  "\<exists>doc. ParametricMap_init example_env example_args = Inr doc
     \<and> get_pixel_data_type_and_attr (pixel_array example_args) = Inr (SHORT, ''PixelData'')
     \<and> (BitsAllocated doc, BitsStored doc, HighBit doc) = (Some 16, Some 16, Some 15)"
proof -
  have "\<exists>doc. ParametricMap_init example_env example_args = Inr doc"
    by (simp add: model_defs example_defs Let_def upt_rec)
  then obtain doc where ok: "ParametricMap_init example_env example_args = Inr doc" ..
  from C5_representation_resolution
         [of "pixel_array example_args" example_env example_args doc] ok
  show ?thesis by (simp add: example_args_def)
qed

subsection \<open>One frame and its functional group item\<close>

lemma frame_item_Inr:
  assumes "frame_item env self a ms cs pps siv hm i j = Inr (f, g)"
  shows "encode_frame env self (getitem_plane a i j) = Inr f \<and>
         (if cs = SLIDE then PlanePositionSlideSequence g else PlanePositionSequence g)
           = Some (pps ! i) \<and>
         (if cs = SLIDE then PlanePositionSequence g else PlanePositionSlideSequence g) = None \<and>
         FrameContentSequence g = [siv ! i] \<and>
         RealWorldValueMappingSequence g = (if hm then Some (ms ! j) else None)"
  using assms unfolding frame_item_def Let_def
  by (auto split: if_splits sum.splits)

lemma encode_frame_cong:
  assumes "TransferSyntaxUID s = TransferSyntaxUID s'" "BitsAllocated s = BitsAllocated s'"
    "BitsStored s = BitsStored s'" "PixelRepresentation s = PixelRepresentation s'"
    "PhotometricInterpretation s = PhotometricInterpretation s'"
  shows "encode_frame env s p = encode_frame env s' p"
  using assms by (simp add: encode_frame_def split: option.splits)

lemma encode_frame_finished:
  "encode_frame env
     (setattr_pixel_data (s\<lparr>NumberOfFrames := x, PerFrameFunctionalGroupsSequence := y\<rparr>) attr b) p
   = encode_frame env s p"
  by (rule encode_frame_cong) (simp_all add: setattr_pixel_data_def)

lemma resolve_plane_positions_Inr:
  assumes "resolve_plane_positions env args (coordinate_system_of (hd (source_images args)))
             (is_multiframe (hd (source_images args))) a = Inr positions"
  shows "plane_positions_in_use env args = Inr positions \<and> length positions = shape a ! 0"
  using assms unfolding resolve_plane_positions_def plane_positions_in_use_def
  by (auto split: option.splits sum.splits if_splits)

lemma pixel_data_of_setattr:
  assumes "get_pixel_data_type_and_attr a = Inr (pdt, attr)"
    and "PixelData s = None" "FloatPixelData s = None" "DoubleFloatPixelData s = None"
  shows "pixel_data_of (setattr_pixel_data s attr b) = Some b"
  using get_pixel_data_type_and_attr_Inr [OF assms(1)] assms(2-)
  by (auto simp: pixel_data_of_def setattr_pixel_data_def)

lemma instance_before_frames_simps:
  "TransferSyntaxUID (instance_before_frames args a g pdt) = transfer_syntax_uid args"
  "PixelData (instance_before_frames args a g pdt) = None"
  "FloatPixelData (instance_before_frames args a g pdt) = None"
  "DoubleFloatPixelData (instance_before_frames args a g pdt) = None"
  "SharedFunctionalGroupsSequence (instance_before_frames args a g pdt) = [g]"
  "PhotometricInterpretation (instance_before_frames args a g pdt) = ''MONOCHROME2''"
  by (simp_all add: instance_before_frames_def set_bits_def Let_def)

lemma setattr_pixel_data_simps:
  "NumberOfFrames (setattr_pixel_data s attr b) = NumberOfFrames s"
  "PerFrameFunctionalGroupsSequence (setattr_pixel_data s attr b)
     = PerFrameFunctionalGroupsSequence s"
  "SharedFunctionalGroupsSequence (setattr_pixel_data s attr b)
     = SharedFunctionalGroupsSequence s"
  "TransferSyntaxUID (setattr_pixel_data s attr b) = TransferSyntaxUID s"
  by (simp_all add: setattr_pixel_data_def)

subsection \<open>Frame count and frame order\<close>

text \<open>
  C1. An instance that the constructor returns for an array of \<open>n\<close> positions and \<open>m\<close>
  channels has \<open>n * m\<close> frames. The encoded frames and the items of the Per Frame
  Functional Groups Sequence are ordered position-major, channel-minor: at index
  \<open>i * m + j\<close> stand the encoding of the plane of position \<open>i\<close> and channel \<open>j\<close> and the item
  with plane position \<open>i\<close> (and, for several channels, the mappings of channel \<open>j\<close>). The
  pixel data are the frames in this order, concatenated or encapsulated.
\<close>

theorem C1_frame_count_and_order:
  assumes "ParametricMap_init env args = Inr doc"
  shows "\<exists>frames groups positions.
      NumberOfFrames doc = Some (num_positions args * num_channels args)
    \<and> length frames = num_positions args * num_channels args
    \<and> pixel_data_of doc = Some (if is_encapsulated (transfer_syntax_uid args)
                                then encapsulate env frames else concat frames)
    \<and> PerFrameFunctionalGroupsSequence doc = Some groups
    \<and> length groups = num_positions args * num_channels args
    \<and> plane_positions_in_use env args = Inr positions
    \<and> length positions = num_positions args
    \<and> (\<forall>i < num_positions args. \<forall>j < num_channels args.
         encode_frame env doc (getitem_plane (as_4d (pixel_array args)) i j)
           = Inr (frames ! (i * num_channels args + j))
       \<and> (if coordinate_system_of (hd (source_images args)) = SLIDE
          then PlanePositionSlideSequence (groups ! (i * num_channels args + j))
          else PlanePositionSequence (groups ! (i * num_channels args + j)))
           = Some (positions ! i)
       \<and> RealWorldValueMappingSequence (groups ! (i * num_channels args + j))
           = (if 1 < num_channels args then Some (real_world_value_mappings args ! j)
              else None))"
proof -
  let ?src = "hd (source_images args)"
  let ?cs = "coordinate_system_of ?src"
  from init_Inr [OF assms] obtain shared a4 mappings positions pdt attr frames groups where
    pm: "place_mappings (if ndim (pixel_array args) = 2
           then newaxis_first (pixel_array args) else pixel_array args)
           (real_world_value_mappings args) = Inr (shared, a4, mappings)"
    and rp: "resolve_plane_positions env args ?cs (is_multiframe ?src) a4 = Inr positions"
    and ty: "get_pixel_data_type_and_attr a4 = Inr (pdt, attr)"
    and cf: "create_frame_items env
       (instance_before_frames args a4 (shared_functional_groups_item args ?src shared a4) pdt)
       a4 pdt mappings ?cs positions = Inr (frames, groups)"
    and doc: "doc = setattr_pixel_data
             ((instance_before_frames args a4
                (shared_functional_groups_item args ?src shared a4) pdt)
                \<lparr>NumberOfFrames := Some (length frames),
                  PerFrameFunctionalGroupsSequence := Some groups\<rparr>)
             attr
             (if is_encapsulated (TransferSyntaxUID (instance_before_frames args a4
                (shared_functional_groups_item args ?src shared a4) pdt))
              then encapsulate env frames else concat frames)"
    by blast
  let ?self = "instance_before_frames args a4
                 (shared_functional_groups_item args ?src shared a4) pdt"
  from place_mappings_Inr [OF pm] have a4: "a4 = as_4d (pixel_array args)"
    and maps: "1 < shape a4 ! 3 \<Longrightarrow> mappings = real_world_value_mappings args"
    by auto
  have n: "shape a4 ! 0 = num_positions args" and m: "shape a4 ! 3 = num_channels args"
    by (simp_all add: a4 num_positions_def num_channels_def)
  from resolve_plane_positions_Inr [OF rp] n
  have pos: "plane_positions_in_use env args = Inr positions"
    "length positions = num_positions args" by simp_all
  from create_frame_items_Inr [OF cf] obtain siv where
    lf: "length frames = shape a4 ! 0 * shape a4 ! 3"
    and lg: "length groups = shape a4 ! 0 * shape a4 ! 3"
    and items: "\<forall>i < shape a4 ! 0. \<forall>j < shape a4 ! 3.
        frame_item env ?self a4 mappings ?cs positions siv (1 < shape a4 ! 3) i j
          = Inr (frames ! (i * shape a4 ! 3 + j), groups ! (i * shape a4 ! 3 + j))"
    by blast
  have nf: "NumberOfFrames doc = Some (num_positions args * num_channels args)"
    unfolding doc using lf n m by (simp add: setattr_pixel_data_simps)
  have pf: "PerFrameFunctionalGroupsSequence doc = Some groups"
    unfolding doc by (simp add: setattr_pixel_data_simps)
  have pd: "pixel_data_of doc = Some (if is_encapsulated (transfer_syntax_uid args)
                                then encapsulate env frames else concat frames)"
    unfolding doc
    by (subst pixel_data_of_setattr [OF ty]) (simp_all add: instance_before_frames_simps)
  have each: "encode_frame env doc (getitem_plane (as_4d (pixel_array args)) i j)
           = Inr (frames ! (i * num_channels args + j))
       \<and> (if ?cs = SLIDE
          then PlanePositionSlideSequence (groups ! (i * num_channels args + j))
          else PlanePositionSequence (groups ! (i * num_channels args + j)))
           = Some (positions ! i)
       \<and> RealWorldValueMappingSequence (groups ! (i * num_channels args + j))
           = (if 1 < num_channels args then Some (real_world_value_mappings args ! j)
              else None)"
    if i: "i < num_positions args" and j: "j < num_channels args" for i j
  proof -
    from items i j n m
    have "frame_item env ?self a4 mappings ?cs positions siv (1 < shape a4 ! 3) i j
          = Inr (frames ! (i * shape a4 ! 3 + j), groups ! (i * shape a4 ! 3 + j))"
      by simp
    from frame_item_Inr [OF this] maps show ?thesis
      unfolding doc encode_frame_finished by (auto simp: m a4 [symmetric] split: if_splits)
  qed
  from nf lf lg pf pd pos each n m show ?thesis
    by (intro exI [of _ frames] exI [of _ groups] exI [of _ positions]) simp
qed

theorem C1_frame_count_and_order_witness:
  "\<exists>doc frames groups. ParametricMap_init example_env example_args = Inr doc
     \<and> NumberOfFrames doc = Some 4
     \<and> pixel_data_of doc = Some (concat frames)
     \<and> PerFrameFunctionalGroupsSequence doc = Some groups
     \<and> encode_frame example_env doc (getitem_plane (as_4d (pixel_array example_args)) 1 0)
         = Inr (frames ! 2)
     \<and> PlanePositionSequence (groups ! 2) = Some (ImagePosition [0, 0, 1])
     \<and> RealWorldValueMappingSequence (groups ! 2) = Some (Seq [Item (LUTLabel ''a'')])"
proof -
  have "\<exists>doc. ParametricMap_init example_env example_args = Inr doc"
    by (simp add: model_defs example_defs Let_def upt_rec)
  then obtain doc where ok: "ParametricMap_init example_env example_args = Inr doc" ..
  have n: "num_positions example_args = 2" and m: "num_channels example_args = 2"
    by (simp_all add: num_positions_def num_channels_def as_4d_def ndim_def example_args_def)
  have cs: "coordinate_system_of (hd (source_images example_args)) = PATIENT"
    by (simp add: coordinate_system_of_def example_defs)
  have enc: "\<not> is_encapsulated (transfer_syntax_uid example_args)"
    by (simp add: is_encapsulated_def example_args_def)
  from C1_frame_count_and_order [OF ok] obtain frames groups positions where
    f: "NumberOfFrames doc = Some (num_positions example_args * num_channels example_args)"
    "pixel_data_of doc = Some (if is_encapsulated (transfer_syntax_uid example_args)
                                then encapsulate example_env frames else concat frames)"
    "PerFrameFunctionalGroupsSequence doc = Some groups"
    "plane_positions_in_use example_env example_args = Inr positions"
    and each: "\<forall>i < num_positions example_args. \<forall>j < num_channels example_args.
         encode_frame example_env doc (getitem_plane (as_4d (pixel_array example_args)) i j)
           = Inr (frames ! (i * num_channels example_args + j))
       \<and> (if coordinate_system_of (hd (source_images example_args)) = SLIDE
          then PlanePositionSlideSequence (groups ! (i * num_channels example_args + j))
          else PlanePositionSequence (groups ! (i * num_channels example_args + j)))
           = Some (positions ! i)
       \<and> RealWorldValueMappingSequence (groups ! (i * num_channels example_args + j))
           = (if 1 < num_channels example_args
              then Some (real_world_value_mappings example_args ! j) else None)"
    by blast
  from f(4) have p: "positions = [ImagePosition [0, 0, 0], ImagePosition [0, 0, 1]]"
    by (simp add: plane_positions_in_use_def example_args_def)
  from each [rule_format, of 1 0] have
    "encode_frame example_env doc (getitem_plane (as_4d (pixel_array example_args)) 1 0)
       = Inr (frames ! 2)
     \<and> PlanePositionSequence (groups ! 2) = Some (ImagePosition [0, 0, 1])
     \<and> RealWorldValueMappingSequence (groups ! 2) = Some (Seq [Item (LUTLabel ''a'')])"
    unfolding n m cs p by (simp add: example_args_def)
  with ok f enc n m show ?thesis by auto
qed

subsection \<open>Encapsulated frames\<close>

text \<open>
  C10. With an encapsulated transfer syntax \<^verbatim>\<open>_encode_frame\<close> hands the frame codec the
  plane converted to unsigned 16-bit by the plain conversion: every sample \<open>v\<close> becomes
  \<open>v mod 2^16\<close>, so \<open>-1\<close> becomes \<open>65535\<close>. This is not the array that the native branch
  writes for signed samples: the shift by \<open>2^15\<close> is not applied. The plane is one of
  integers: the check of the transfer syntax lets no other array reach this branch.
\<close>

theorem C10_encapsulated_plain_cast:
  assumes "is_encapsulated (TransferSyntaxUID self)" and "ndim p = 2"
    and "kind (dtype p) \<in> {CHR ''u'', CHR ''i''}"
    and "BitsAllocated self = Some bits_allocated" and "BitsStored self = Some bits_stored"
    and "PixelRepresentation self = Some pixel_representation"
  shows "encode_frame env self p =
           frame_encode_frame env
             (p\<lparr>dtype := np_uint16, data := map (\<lambda>v. v mod 2 ^ 16) (data p)\<rparr>)
             (TransferSyntaxUID self) bits_allocated bits_stored
             (PhotometricInterpretation self) pixel_representation
       \<and> map (\<lambda>v. v mod 2 ^ 16) [-1 :: int] = [65535]
       \<and> (data p \<noteq> [] \<longrightarrow> map (\<lambda>v. v mod 2 ^ 16) (data p) \<noteq> data (rescale_signed p))"
proof -
  have "map (\<lambda>v. v mod 2 ^ 16) (data p) \<noteq> data (rescale_signed p)" if "data p \<noteq> []"
  proof -
    from that obtain v vs where d: "data p = v # vs" by (cases "data p") auto
    have "v mod 65536 \<noteq> ((v + 32768) mod 65536 - 32768 + 32768) mod 65536"
    proof
      assume "v mod 65536 = ((v + 32768) mod 65536 - 32768 + 32768) mod 65536"
      then have "v mod 65536 = (v + 32768) mod 65536" by simp
      then have "(v + 32768 - v) mod 65536 = 0"
        by (metis mod_diff_cong cancel_comm_monoid_add_class.diff_cancel mod_0)
      then show False by simp
    qed
    then show ?thesis by (simp add: rescale_signed_def astype_int16_def d)
  qed
  with assms show ?thesis by (simp add: encode_frame_def astype_uint16_def)
qed

theorem C10_encapsulated_plain_cast_witness:
  "\<exists>doc. ParametricMap_init example_env example_args_encapsulated = Inr doc
     \<and> is_encapsulated (TransferSyntaxUID doc)
     \<and> encode_frame example_env doc \<lparr>dtype = np_int16, shape = [1, 1], data = [-1]\<rparr>
        = frame_encode_frame example_env \<lparr>dtype = np_uint16, shape = [1, 1], data = [65535]\<rparr>
            JPEG2000Lossless 16 16 ''MONOCHROME2'' 0
     \<and> data (rescale_signed \<lparr>dtype = np_int16, shape = [1, 1], data = [-1]\<rparr>) = [32767]"
proof -
  have "\<exists>doc. ParametricMap_init example_env example_args_encapsulated = Inr doc
     \<and> TransferSyntaxUID doc = JPEG2000Lossless \<and> BitsAllocated doc = Some 16
     \<and> BitsStored doc = Some 16 \<and> PixelRepresentation doc = Some 0
     \<and> PhotometricInterpretation doc = ''MONOCHROME2''"
    by (simp add: model_defs example_defs Let_def upt_rec)
  then obtain doc where ok: "ParametricMap_init example_env example_args_encapsulated = Inr doc"
    and a: "TransferSyntaxUID doc = JPEG2000Lossless" "BitsAllocated doc = Some 16"
      "BitsStored doc = Some 16" "PixelRepresentation doc = Some 0"
      "PhotometricInterpretation doc = ''MONOCHROME2''"
    by (elim exE conjE) (rule that)
  let ?p = "\<lparr>dtype = np_int16, shape = [1, 1], data = [-1]\<rparr>"
  have e: "is_encapsulated (TransferSyntaxUID doc)" by (simp add: a is_encapsulated_def)
  have nd: "ndim ?p = 2" by (simp add: ndim_def)
  have r: "data (rescale_signed ?p) = [32767]"
    by (simp add: rescale_signed_def astype_int16_def)
  have k: "kind (dtype ?p) \<in> {CHR ''u'', CHR ''i''}" by simp
  from C10_encapsulated_plain_cast [OF e nd k a(2) a(3) a(4), of example_env]
  have "encode_frame example_env doc ?p
        = frame_encode_frame example_env \<lparr>dtype = np_uint16, shape = [1, 1], data = [65535]\<rparr>
            JPEG2000Lossless 16 16 ''MONOCHROME2'' 0"
    by (simp add: a)
  with ok e r show ?thesis by blast
qed

subsection \<open>Signed samples and the rescale intercept\<close>

text \<open>
  C3. The claim: for signed input the instance carries rescale intercept \<open>2^15\<close> and slope
  1, and every stored unsigned 16-bit sample minus \<open>2^15\<close> is the signed value. Evaluated
  at the signed 16-bit sample \<open>-1\<close> stored with JPEG 2000 Lossless: the intercept is
  \<open>2^15\<close>, the sample that reaches the pixel data is \<open>65535\<close> (the example codec writes
  what it is given), and \<open>65535 - 2^15\<close> is \<open>32767\<close>, not \<open>-1\<close>.
\<close>

theorem C3_signed_encapsulated_evaluation:
  "\<exists>doc. ParametricMap_init example_env example_args_encapsulated = Inr doc
     \<and> data (pixel_array example_args_encapsulated) = [-1]
     \<and> map RescaleIntercept
         (concat (map PixelValueTransformationSequence (SharedFunctionalGroupsSequence doc)))
        = [2 ^ 15]
     \<and> PixelData doc = Some [255, 255]
     \<and> map (\<lambda>stored. stored - 2 ^ 15) (frombuffer_uint16 [255, 255]) = [32767]"
proof -
  have "\<exists>doc. ParametricMap_init example_env example_args_encapsulated = Inr doc
     \<and> map RescaleIntercept
         (concat (map PixelValueTransformationSequence (SharedFunctionalGroupsSequence doc)))
        = [32768]
     \<and> PixelData doc = Some [255, 255]"
    by (simp add: model_defs example_defs Let_def upt_rec)
  then obtain doc where ok: "ParametricMap_init example_env example_args_encapsulated = Inr doc"
    and ri: "map RescaleIntercept
         (concat (map PixelValueTransformationSequence (SharedFunctionalGroupsSequence doc)))
        = [32768]"
    and pd: "PixelData doc = Some [255, 255]"
    by (elim exE conjE) (rule that)
  have p: "(32768 :: real) = 2 ^ 15" by simp
  have d: "data (pixel_array example_args_encapsulated) = [-1]"
    by (simp add: example_args_encapsulated_def)
  have s: "map (\<lambda>stored. stored - 2 ^ 15) (frombuffer_uint16 [255, 255]) = [32767]"
    by simp
  from ri p have ri': "map RescaleIntercept
         (concat (map PixelValueTransformationSequence (SharedFunctionalGroupsSequence doc)))
        = [2 ^ 15]"
    by (simp only:)
  show ?thesis
    by (rule exI [of _ doc]) (intro conjI ok d ri' pd s)
qed

subsection \<open>Placement of the value mappings\<close>

text \<open>
  C2. The claim: with one channel the mappings stand once in the shared functional group
  and in no per-frame item, also for a 4D array whose last axis has length 1. Evaluated
  at a 4D array of shape \<open>(1, 1, 1, 1)\<close> with the nested mappings of its one channel: the
  construction succeeds, and neither the shared item nor the per-frame item has a
  \<^verbatim>\<open>RealWorldValueMappingSequence\<close>.
\<close>

theorem C2_single_channel_4d_evaluation:
  "\<exists>doc groups. ParametricMap_init example_env example_args_single_channel_4d = Inr doc
     \<and> num_channels example_args_single_channel_4d = 1
     \<and> real_world_value_mappings example_args_single_channel_4d = [Seq [Item (LUTLabel ''a'')]]
     \<and> map sffg_RealWorldValueMappingSequence (SharedFunctionalGroupsSequence doc) = [None]
     \<and> PerFrameFunctionalGroupsSequence doc = Some groups
     \<and> map RealWorldValueMappingSequence groups = [None]"
  by (simp add: model_defs example_defs Let_def upt_rec num_channels_def as_4d_def)

subsection \<open>Failures of the checks\<close>

lemma init_fails_early:
  "check_arguments args = Inl e \<Longrightarrow> ParametricMap_init env args = Inl e"
  by (simp add: ParametricMap_init_def)

lemma check_arguments_cases:
  "(\<exists>e. check_arguments args = Inl e) \<or> check_arguments args = Inr ()"
  by (cases "check_arguments args") auto

lemma check_arguments_window_width:
  assumes "window_width args \<le> 0"
  shows "check_arguments args =
           Inl (if length (source_images args) = 0 then NoSourceImage
                else if card (uniqueness_criteria (source_images args)) > 1
                  then InconsistentSourceImages
                else if src_NumberOfFrames (hd (source_images args)) \<noteq> None
                        \<and> length (source_images args) > 1
                  then MultipleMultiframeSources
                else if transfer_syntax_uid args \<notin> supported_transfer_syntaxes (pixel_array args)
                  then UnsupportedTransferSyntax (transfer_syntax_uid args)
                else InvalidWindowWidth)"
  using assms by (simp add: check_arguments_def)

lemma init_fails_before_mappings:
  "failure_before_mappings env args = Some e \<Longrightarrow> ParametricMap_init env args = Inl e"
  unfolding failure_before_mappings_def ParametricMap_init_def Let_def
  by (auto split: sum.splits option.splits)

lemma failure_before_mappings_cases:
  "(\<exists>e. failure_before_mappings env args = Some e) \<or> failure_before_mappings env args = None"
  by (cases "failure_before_mappings env args") auto

lemma failure_before_mappings_None:
  assumes "failure_before_mappings env args = None"
  shows "check_arguments args = Inr ()
       \<and> SOPClass_init env (transfer_syntax_uid args) (hd (source_images args)) = None
       \<and> (case content_creator_name args of
             None \<Rightarrow> None
           | Some creator \<Rightarrow> check_person_name env creator) = None"
  using assms unfolding failure_before_mappings_def
  by (auto split: sum.splits option.splits)

lemma init_fails_mappings:
  assumes "failure_before_mappings env args = None"
    and "a3 = (if ndim (pixel_array args) = 2 then newaxis_first (pixel_array args)
                 else pixel_array args)"
    and "place_mappings a3 (real_world_value_mappings args) = Inl e"
  shows "ParametricMap_init env args = Inl e"
proof -
  note pre = failure_before_mappings_None [OF assms(1)]
  from assms(2,3)
  have "place_mappings (if ndim (pixel_array args) = 2 then newaxis_first (pixel_array args)
                        else pixel_array args) (real_world_value_mappings args) = Inl e"
    by simp
  with pre show ?thesis by (simp add: ParametricMap_init_def Let_def)
qed

lemma init_fails_if_mappings_fail:
  assumes "a3 = (if ndim (pixel_array args) = 2 then newaxis_first (pixel_array args)
                 else pixel_array args)"
    and "place_mappings a3 (real_world_value_mappings args) = Inl e"
  shows "\<exists>e'. ParametricMap_init env args = Inl e'"
  using failure_before_mappings_cases [of env args] assms
  by (auto dest: init_fails_before_mappings init_fails_mappings)

lemma init_fails_count:
  assumes "a3 = (if ndim (pixel_array args) = 2 then newaxis_first (pixel_array args)
                 else pixel_array args)"
    and "place_mappings a3 (real_world_value_mappings args) = Inr (shared, a4, mappings)"
    and "length mappings \<noteq> shape a4 ! 3"
  shows "(\<exists>e. ParametricMap_init env args = Inl e)
       \<and> (failure_before_mappings env args = None
            \<longrightarrow> ParametricMap_init env args = Inl MappingCountMismatch)"
proof -
  have "ParametricMap_init env args = Inl MappingCountMismatch"
    if none: "failure_before_mappings env args = None"
  proof -
    note pre = failure_before_mappings_None [OF none]
    from assms(1,2)
    have "place_mappings (if ndim (pixel_array args) = 2 then newaxis_first (pixel_array args)
                          else pixel_array args) (real_world_value_mappings args)
            = Inr (shared, a4, mappings)"
      by simp
    with pre assms(3) show ?thesis by (simp add: ParametricMap_init_def Let_def)
  qed
  with failure_before_mappings_cases [of env args] show ?thesis
    by (auto dest: init_fails_before_mappings)
qed

lemma init_fails_plane_positions:
  assumes "failure_before_mappings env args = None"
    and "a3 = (if ndim (pixel_array args) = 2 then newaxis_first (pixel_array args)
                 else pixel_array args)"
    and "place_mappings a3 (real_world_value_mappings args) = Inr (shared, a4, mappings)"
    and "length mappings = shape a4 ! 3"
    and "resolve_plane_positions env args (coordinate_system_of (hd (source_images args)))
           (is_multiframe (hd (source_images args))) a4 = Inl e"
  shows "ParametricMap_init env args = Inl e"
proof -
  note pre = failure_before_mappings_None [OF assms(1)]
  from assms(2,3)
  have "place_mappings (if ndim (pixel_array args) = 2 then newaxis_first (pixel_array args)
                        else pixel_array args) (real_world_value_mappings args)
          = Inr (shared, a4, mappings)"
    by simp
  with pre assms(4,5) show ?thesis by (simp add: ParametricMap_init_def Let_def)
qed

lemma init_fails_before_plane_positions:
  assumes "failure_before_plane_positions env args = Some e"
  shows "ParametricMap_init env args = Inl e"
proof (cases "failure_before_mappings env args")
  case (Some e')
  with assms have "e' = e" by (simp add: failure_before_plane_positions_def)
  with Some show ?thesis by (simp add: init_fails_before_mappings)
next
  case None
  define a3 where a3: "a3 = (if ndim (pixel_array args) = 2 then newaxis_first (pixel_array args)
                             else pixel_array args)"
  show ?thesis
  proof (cases "place_mappings a3 (real_world_value_mappings args)")
    case (Inl e')
    with assms None a3 have "e' = e" by (simp add: failure_before_plane_positions_def)
    with init_fails_mappings [OF None a3 Inl] show ?thesis by simp
  next
    case (Inr r)
    obtain shared a4 mappings where r: "r = (shared, a4, mappings)" by (cases r)
    from assms None a3 Inr r have "length mappings \<noteq> shape a4 ! 3" and "e = MappingCountMismatch"
      by (auto simp: failure_before_plane_positions_def split: if_splits)
    with init_fails_count [OF a3 Inr [unfolded r]] None show ?thesis by simp
  qed
qed

lemma failure_before_plane_positions_None:
  assumes "failure_before_plane_positions env args = None"
    and "a3 = (if ndim (pixel_array args) = 2 then newaxis_first (pixel_array args)
                 else pixel_array args)"
  shows "failure_before_mappings env args = None
       \<and> (\<exists>shared a4 mappings.
             place_mappings a3 (real_world_value_mappings args) = Inr (shared, a4, mappings)
             \<and> length mappings = shape a4 ! 3)"
  using assms unfolding failure_before_plane_positions_def
  by (auto split: sum.splits option.splits prod.splits if_splits)

text \<open>
  C9. A window width of zero or less makes the construction fail: there is no instance,
  so no frame and no pixel data. The exception is the one for the window width whenever
  the checks that the constructor makes before it pass, those of the source images and
  of the transfer syntax; otherwise it is the exception of the first of those checks that
  fails: no source image, source images that differ in study, series, size or frame of
  reference, more than one source image with the first a multi-frame image, a transfer
  syntax outside the supported set, in this order.
\<close>

theorem C9_window_width:
  assumes "window_width args \<le> 0"
  shows "(\<exists>e. ParametricMap_init env args = Inl e)
       \<and> (source_images_ok args
            \<and> transfer_syntax_uid args \<in> supported_transfer_syntaxes (pixel_array args)
          \<longrightarrow> ParametricMap_init env args = Inl InvalidWindowWidth)
       \<and> ParametricMap_init env args =
           Inl (if length (source_images args) = 0 then NoSourceImage
                else if card (uniqueness_criteria (source_images args)) > 1
                  then InconsistentSourceImages
                else if src_NumberOfFrames (hd (source_images args)) \<noteq> None
                        \<and> length (source_images args) > 1
                  then MultipleMultiframeSources
                else if transfer_syntax_uid args \<notin> supported_transfer_syntaxes (pixel_array args)
                  then UnsupportedTransferSyntax (transfer_syntax_uid args)
                else InvalidWindowWidth)"
proof -
  let ?e = "if length (source_images args) = 0 then NoSourceImage
            else if card (uniqueness_criteria (source_images args)) > 1
              then InconsistentSourceImages
            else if src_NumberOfFrames (hd (source_images args)) \<noteq> None
                    \<and> length (source_images args) > 1
              then MultipleMultiframeSources
            else if transfer_syntax_uid args \<notin> supported_transfer_syntaxes (pixel_array args)
              then UnsupportedTransferSyntax (transfer_syntax_uid args)
            else InvalidWindowWidth"
  from check_arguments_window_width [OF assms]
  have first: "ParametricMap_init env args = Inl ?e"
    by (rule init_fails_early)
  then have fails: "\<exists>e. ParametricMap_init env args = Inl e" ..
  have window: "ParametricMap_init env args = Inl InvalidWindowWidth"
    if "source_images_ok args"
      and "transfer_syntax_uid args \<in> supported_transfer_syntaxes (pixel_array args)"
  proof -
    from that have "?e = InvalidWindowWidth"
      by (simp add: source_images_ok_def)
    with first show ?thesis by (simp only:)
  qed
  from fails window first show ?thesis by blast
qed

theorem C9_window_width_witness:
  "window_width (example_args\<lparr>window_width := 0\<rparr>) \<le> 0
   \<and> source_images_ok (example_args\<lparr>window_width := 0\<rparr>)
   \<and> ParametricMap_init example_env (example_args\<lparr>window_width := 0\<rparr>) = Inl InvalidWindowWidth
   \<and> window_width (example_args\<lparr>window_width := 0, source_images := []\<rparr>) \<le> 0
   \<and> ParametricMap_init example_env (example_args\<lparr>window_width := 0, source_images := []\<rparr>)
      = Inl NoSourceImage"
proof -
  let ?args = "example_args\<lparr>window_width := 0\<rparr>"
  let ?none = "example_args\<lparr>window_width := 0, source_images := []\<rparr>"
  have w: "window_width ?args \<le> 0" by simp
  have s: "source_images_ok ?args"
    by (simp add: source_images_ok_def uniqueness_criteria_def example_defs)
  have t: "transfer_syntax_uid ?args \<in> supported_transfer_syntaxes (pixel_array ?args)"
    by (simp add: supported_transfer_syntaxes_def example_defs)
  from C9_window_width [OF w, of example_env] s t
  have 1: "ParametricMap_init example_env ?args = Inl InvalidWindowWidth" by blast
  have w': "window_width ?none \<le> 0" by simp
  from C9_window_width [OF w', of example_env]
  have 2: "ParametricMap_init example_env ?none = Inl NoSourceImage" by simp
  from w s 1 w' 2 show ?thesis by blast
qed

theorem C9_window_width_counterexample:
  "window_width (example_args\<lparr>window_width := 0, transfer_syntax_uid := ExplicitVRBigEndian\<rparr>) \<le> 0
   \<and> ParametricMap_init example_env
        (example_args\<lparr>window_width := 0, transfer_syntax_uid := ExplicitVRBigEndian\<rparr>)
       = Inl (UnsupportedTransferSyntax ExplicitVRBigEndian)
   \<and> UnsupportedTransferSyntax ExplicitVRBigEndian \<noteq> InvalidWindowWidth"
  by (simp add: ParametricMap_init_def check_arguments_def uniqueness_criteria_def
        supported_transfer_syntaxes_def example_defs)

text \<open>
  C6. The transfer syntaxes that pass the check are the two uncompressed little-endian
  ones and, for arrays of signed or unsigned integers only, JPEG 2000 Lossless and RLE
  Lossless. A transfer syntax outside this set makes the construction fail for every
  element type. When the source images pass their checks, which come first, the
  exception is the one for the transfer syntax; so it is for a floating-point array with
  JPEG 2000 Lossless or RLE Lossless. An integer array with any of the four syntaxes and
  a positive window width passes all checks of the arguments.
\<close>

theorem C6_storage_syntax:
  "(transfer_syntax_uid args \<notin> supported_transfer_syntaxes (pixel_array args)
      \<longrightarrow> (\<exists>e. ParametricMap_init env args = Inl e))
   \<and> supported_transfer_syntaxes (pixel_array args) =
       (if kind (dtype (pixel_array args)) \<in> {CHR ''u'', CHR ''i''}
        then {ImplicitVRLittleEndian, ExplicitVRLittleEndian, JPEG2000Lossless, RLELossless}
        else {ImplicitVRLittleEndian, ExplicitVRLittleEndian})
   \<and> (source_images_ok args \<longrightarrow>
        (kind (dtype (pixel_array args)) = CHR ''f''
           \<and> transfer_syntax_uid args \<in> {JPEG2000Lossless, RLELossless}
         \<longrightarrow> ParametricMap_init env args
               = Inl (UnsupportedTransferSyntax (transfer_syntax_uid args)))
      \<and> (transfer_syntax_uid args \<notin> supported_transfer_syntaxes (pixel_array args)
         \<longrightarrow> ParametricMap_init env args
               = Inl (UnsupportedTransferSyntax (transfer_syntax_uid args)))
      \<and> (kind (dtype (pixel_array args)) \<in> {CHR ''u'', CHR ''i''}
           \<and> transfer_syntax_uid args \<in> {ImplicitVRLittleEndian, ExplicitVRLittleEndian,
                                           JPEG2000Lossless, RLELossless}
           \<and> 0 < window_width args
         \<longrightarrow> check_arguments args = Inr ()))"
proof -
  have fails: "\<exists>e. ParametricMap_init env args = Inl e"
    if "transfer_syntax_uid args \<notin> supported_transfer_syntaxes (pixel_array args)"
  proof -
    from that have "\<exists>e. check_arguments args = Inl e"
      by (simp add: check_arguments_def)
    then show ?thesis by (auto dest: init_fails_early)
  qed
  have set: "supported_transfer_syntaxes (pixel_array args) =
       (if kind (dtype (pixel_array args)) \<in> {CHR ''u'', CHR ''i''}
        then {ImplicitVRLittleEndian, ExplicitVRLittleEndian, JPEG2000Lossless, RLELossless}
        else {ImplicitVRLittleEndian, ExplicitVRLittleEndian})"
    by (auto simp: supported_transfer_syntaxes_def)
  have unsupported: "ParametricMap_init env args
               = Inl (UnsupportedTransferSyntax (transfer_syntax_uid args))"
    if "source_images_ok args"
      and "transfer_syntax_uid args \<notin> supported_transfer_syntaxes (pixel_array args)"
  proof -
    from that have "check_arguments args
                      = Inl (UnsupportedTransferSyntax (transfer_syntax_uid args))"
      by (simp add: check_arguments_def source_images_ok_def)
    then show ?thesis by (rule init_fails_early)
  qed
  have float: "transfer_syntax_uid args \<notin> supported_transfer_syntaxes (pixel_array args)"
    if "kind (dtype (pixel_array args)) = CHR ''f''"
      and "transfer_syntax_uid args \<in> {JPEG2000Lossless, RLELossless}"
    using that by (auto simp: supported_transfer_syntaxes_def)
  have integer: "check_arguments args = Inr ()"
    if "source_images_ok args" and "kind (dtype (pixel_array args)) \<in> {CHR ''u'', CHR ''i''}"
      and "transfer_syntax_uid args \<in> {ImplicitVRLittleEndian, ExplicitVRLittleEndian,
                                        JPEG2000Lossless, RLELossless}"
      and "0 < window_width args"
    using that by (auto simp: check_arguments_def source_images_ok_def
                     supported_transfer_syntaxes_def)
  from fails set unsupported float integer show ?thesis by blast
qed

theorem C6_storage_syntax_witness:
  "source_images_ok
     (example_args_encapsulated\<lparr>pixel_array := \<lparr>dtype = np_float32, shape = [1, 1], data = [0]\<rparr>\<rparr>)
   \<and> ParametricMap_init example_env
       (example_args_encapsulated\<lparr>pixel_array := \<lparr>dtype = np_float32, shape = [1, 1], data = [0]\<rparr>\<rparr>)
      = Inl (UnsupportedTransferSyntax JPEG2000Lossless)
   \<and> kind (dtype (pixel_array example_args_encapsulated)) = CHR ''i''
   \<and> transfer_syntax_uid example_args_encapsulated = JPEG2000Lossless
   \<and> check_arguments example_args_encapsulated = Inr ()"
proof -
  let ?f = "example_args_encapsulated
              \<lparr>pixel_array := \<lparr>dtype = np_float32, shape = [1, 1], data = [0]\<rparr>\<rparr>"
  have sf: "source_images_ok ?f"
    by (simp add: source_images_ok_def uniqueness_criteria_def example_defs)
  have kf: "kind (dtype (pixel_array ?f)) = CHR ''f''" by simp
  have tf: "transfer_syntax_uid ?f = JPEG2000Lossless"
    by (simp add: example_args_encapsulated_def)
  have si: "source_images_ok example_args_encapsulated"
    by (simp add: source_images_ok_def uniqueness_criteria_def example_defs)
  have ki: "kind (dtype (pixel_array example_args_encapsulated)) = CHR ''i''"
    by (simp add: example_args_encapsulated_def)
  have ti: "transfer_syntax_uid example_args_encapsulated = JPEG2000Lossless"
    by (simp add: example_args_encapsulated_def)
  have wi: "0 < window_width example_args_encapsulated"
    by (simp add: example_args_encapsulated_def)
  from C6_storage_syntax [of ?f example_env] sf kf tf
  have 1: "ParametricMap_init example_env ?f = Inl (UnsupportedTransferSyntax JPEG2000Lossless)"
    by simp
  from C6_storage_syntax [of example_args_encapsulated example_env] si ki ti wi
  have 2: "check_arguments example_args_encapsulated = Inr ()"
    by simp
  from sf 1 ki ti 2 show ?thesis by blast
qed

theorem C6_storage_syntax_counterexample:
  "kind (dtype (pixel_array
     (example_args_encapsulated
        \<lparr>pixel_array := \<lparr>dtype = np_float32, shape = [1, 1], data = [0]\<rparr>,
         source_images := []\<rparr>))) = CHR ''f''
   \<and> transfer_syntax_uid
       (example_args_encapsulated
          \<lparr>pixel_array := \<lparr>dtype = np_float32, shape = [1, 1], data = [0]\<rparr>,
           source_images := []\<rparr>) = JPEG2000Lossless
   \<and> ParametricMap_init example_env
       (example_args_encapsulated
          \<lparr>pixel_array := \<lparr>dtype = np_float32, shape = [1, 1], data = [0]\<rparr>,
           source_images := []\<rparr>) = Inl NoSourceImage
   \<and> \<not> is_UnsupportedStorageSyntax NoSourceImage"
  by (simp add: ParametricMap_init_def check_arguments_def example_defs
        is_UnsupportedStorageSyntax_def)

text \<open>
  C8. When the plane positions in use, given or derived from the source images, are not
  as many as the array has positions, the construction fails: there is no instance and
  no frame is encoded. The exception is the one for the count of plane positions
  whenever no step that the constructor makes before that check fails: the checks of the
  source images, of the transfer syntax and of the window width, the constructor of the
  base class, the check of the content creator's name, for a 2D or 3D array the storing
  of the mappings in the shared item, the checks of the form of the mappings and of the
  rank of the array, the check of the number of mappings. Otherwise the exception is that
  of the first of these steps that fails.
\<close>

theorem C8_plane_count:
  assumes "plane_positions_in_use env args = Inr positions"
    and "length positions \<noteq> num_positions args"
  shows "(\<exists>e. ParametricMap_init env args = Inl e)
       \<and> (failure_before_plane_positions env args = None
          \<longrightarrow> ParametricMap_init env args
                = Inl (if plane_positions args = None then SourcePlaneCountMismatch
                       else SuppliedPlaneCountMismatch))
       \<and> (\<forall>e. failure_before_plane_positions env args = Some e
            \<longrightarrow> ParametricMap_init env args = Inl e)"
proof -
  let ?src = "hd (source_images args)"
  define a3 where a3: "a3 = (if ndim (pixel_array args) = 2 then newaxis_first (pixel_array args)
                             else pixel_array args)"
  have fails: "\<exists>e. ParametricMap_init env args = Inl e"
  proof (cases "ParametricMap_init env args")
    case (Inl e)
    then show ?thesis by blast
  next
    case (Inr doc)
    from init_Inr [OF Inr] obtain shared a4 mappings ps where
      pm: "place_mappings (if ndim (pixel_array args) = 2 then newaxis_first (pixel_array args)
                           else pixel_array args) (real_world_value_mappings args)
             = Inr (shared, a4, mappings)"
      and rp: "resolve_plane_positions env args (coordinate_system_of ?src)
                 (is_multiframe ?src) a4 = Inr ps"
      by blast
    from place_mappings_Inr [OF pm] have "shape a4 ! 0 = num_positions args"
      by (simp add: num_positions_def)
    with resolve_plane_positions_Inr [OF rp] assms show ?thesis by simp
  qed
  have mismatch: "ParametricMap_init env args
                = Inl (if plane_positions args = None then SourcePlaneCountMismatch
                       else SuppliedPlaneCountMismatch)"
    if none: "failure_before_plane_positions env args = None"
  proof -
    from failure_before_plane_positions_None [OF none a3] obtain shared a4 mappings where
      fm: "failure_before_mappings env args = None"
      and pm: "place_mappings a3 (real_world_value_mappings args) = Inr (shared, a4, mappings)"
      and lm: "length mappings = shape a4 ! 3"
      by blast
    from place_mappings_Inr [OF pm [unfolded a3]] have n: "shape a4 ! 0 = num_positions args"
      by (simp add: num_positions_def)
    from assms n have "resolve_plane_positions env args (coordinate_system_of ?src)
                 (is_multiframe ?src) a4
                = Inl (if plane_positions args = None then SourcePlaneCountMismatch
                       else SuppliedPlaneCountMismatch)"
      unfolding resolve_plane_positions_def plane_positions_in_use_def
      by (auto split: option.splits if_splits)
    from init_fails_plane_positions [OF fm a3 pm lm this] show ?thesis .
  qed
  have earlier: "ParametricMap_init env args = Inl e"
    if "failure_before_plane_positions env args = Some e" for e
    using that by (rule init_fails_before_plane_positions)
  from fails mismatch earlier show ?thesis by blast
qed

theorem C8_plane_count_witness:
  "plane_positions_in_use example_env
     (example_args\<lparr>plane_positions := Some [ImagePosition [0, 0, 0]]\<rparr>)
     = Inr [ImagePosition [0, 0, 0]]
   \<and> num_positions (example_args\<lparr>plane_positions := Some [ImagePosition [0, 0, 0]]\<rparr>) = 2
   \<and> ParametricMap_init example_env
       (example_args\<lparr>plane_positions := Some [ImagePosition [0, 0, 0]]\<rparr>)
      = Inl SuppliedPlaneCountMismatch
   \<and> plane_positions_in_use example_env (example_args\<lparr>plane_positions := None\<rparr>)
     = Inr [ImagePosition [0, 0, 0]]
   \<and> ParametricMap_init example_env (example_args\<lparr>plane_positions := None\<rparr>)
      = Inl SourcePlaneCountMismatch
   \<and> plane_positions_in_use example_env
       (example_args\<lparr>pixel_array := \<lparr>dtype = np_uint8, shape = [2, 1, 1], data = [0, 1]\<rparr>,
                     real_world_value_mappings :=
                       [Item (LUTLabel ''a''), Seq [Item (LUTLabel ''b'')]],
                     plane_positions := Some [ImagePosition [0, 0, 0]]\<rparr>)
     = Inr [ImagePosition [0, 0, 0]]
   \<and> num_positions
       (example_args\<lparr>pixel_array := \<lparr>dtype = np_uint8, shape = [2, 1, 1], data = [0, 1]\<rparr>,
                     real_world_value_mappings :=
                       [Item (LUTLabel ''a''), Seq [Item (LUTLabel ''b'')]],
                     plane_positions := Some [ImagePosition [0, 0, 0]]\<rparr>) = 2
   \<and> ParametricMap_init example_env
       (example_args\<lparr>pixel_array := \<lparr>dtype = np_uint8, shape = [2, 1, 1], data = [0, 1]\<rparr>,
                     real_world_value_mappings :=
                       [Item (LUTLabel ''a''), Seq [Item (LUTLabel ''b'')]],
                     plane_positions := Some [ImagePosition [0, 0, 0]]\<rparr>)
      = Inl SequenceContentsTypeError"
proof -
  let ?g = "example_args\<lparr>plane_positions := Some [ImagePosition [0, 0, 0]]\<rparr>"
  let ?d = "example_args\<lparr>plane_positions := None\<rparr>"
  let ?m = "example_args\<lparr>pixel_array := \<lparr>dtype = np_uint8, shape = [2, 1, 1], data = [0, 1]\<rparr>,
                         real_world_value_mappings :=
                           [Item (LUTLabel ''a''), Seq [Item (LUTLabel ''b'')]],
                         plane_positions := Some [ImagePosition [0, 0, 0]]\<rparr>"
  have pg: "plane_positions_in_use example_env ?g = Inr [ImagePosition [0, 0, 0]]"
    by (simp add: plane_positions_in_use_def)
  have pd: "plane_positions_in_use example_env ?d = Inr [ImagePosition [0, 0, 0]]"
    by (simp add: plane_positions_in_use_def is_multiframe_def example_defs)
  have pm: "plane_positions_in_use example_env ?m = Inr [ImagePosition [0, 0, 0]]"
    by (simp add: plane_positions_in_use_def)
  have ng: "num_positions ?g = 2" and nd: "num_positions ?d = 2"
    by (simp_all add: num_positions_def as_4d_def ndim_def example_args_def)
  have nm: "num_positions ?m = 2"
    by (simp add: num_positions_def as_4d_def ndim_def)
  have fg: "failure_before_plane_positions example_env ?g = None"
    and fd: "failure_before_plane_positions example_env ?d = None"
    by (simp_all add: failure_before_plane_positions_def failure_before_mappings_def
          check_arguments_def uniqueness_criteria_def supported_transfer_syntaxes_def
          place_mappings_def ndim_def example_defs)
  have fm: "failure_before_plane_positions example_env ?m = Some SequenceContentsTypeError"
    by (simp add: failure_before_plane_positions_def failure_before_mappings_def
          check_arguments_def uniqueness_criteria_def supported_transfer_syntaxes_def
          place_mappings_def ndim_def example_defs)
  from C8_plane_count [OF pg, of] ng fg
  have 1: "ParametricMap_init example_env ?g = Inl SuppliedPlaneCountMismatch" by simp
  from C8_plane_count [OF pd, of] nd fd
  have 2: "ParametricMap_init example_env ?d = Inl SourcePlaneCountMismatch" by simp
  from C8_plane_count [OF pm, of] nm fm
  have 3: "ParametricMap_init example_env ?m = Inl SequenceContentsTypeError" by simp
  from pg ng 1 pd 2 pm nm 3 show ?thesis by blast
qed

theorem C8_plane_count_counterexample:
  "plane_positions_in_use example_env
     (example_args\<lparr>plane_positions := Some [ImagePosition [0, 0, 0]], window_width := 0\<rparr>)
     = Inr [ImagePosition [0, 0, 0]]
   \<and> num_positions
       (example_args\<lparr>plane_positions := Some [ImagePosition [0, 0, 0]], window_width := 0\<rparr>) = 2
   \<and> ParametricMap_init example_env
       (example_args\<lparr>plane_positions := Some [ImagePosition [0, 0, 0]], window_width := 0\<rparr>)
      = Inl InvalidWindowWidth
   \<and> \<not> is_PlaneCountMismatch InvalidWindowWidth"
  by (simp add: ParametricMap_init_def check_arguments_def uniqueness_criteria_def
        supported_transfer_syntaxes_def plane_positions_in_use_def num_positions_def
        as_4d_def ndim_def is_PlaneCountMismatch_def example_defs)

lemma place_mappings_empty:
  "place_mappings a [] =
     Inl (if ndim a \<in> {2, 3} then FlatMappingsRequired
          else if ndim a = 4 then NestedMappingsRequired
          else InvalidArrayRank)"
  by (simp add: place_mappings_def)

lemma place_mappings_flat_4d:
  assumes "ndim a = 4" and "flat_sequence ms" and "ms \<noteq> []"
  shows "place_mappings a ms = Inl KeyError"
proof (cases ms)
  case Nil
  with assms show ?thesis by simp
next
  case (Cons x xs)
  with assms obtain d where "x = Item d"
    by (cases x) (simp_all add: flat_sequence_def)
  with Cons assms show ?thesis by (simp add: place_mappings_def)
qed

lemma place_mappings_nested_2d_3d:
  assumes "ndim a \<in> {2, 3}" and "nested_sequence ms" and "ms \<noteq> []"
  shows "place_mappings a ms = Inl SequenceContentsTypeError"
proof (cases ms)
  case Nil
  with assms show ?thesis by simp
next
  case (Cons x xs)
  with assms obtain ys where "x = Seq ys"
    by (cases x) (simp_all add: nested_sequence_def)
  with Cons assms show ?thesis by (auto simp: place_mappings_def)
qed

lemma place_mappings_nested_4d:
  assumes "ndim a = 4" and "nested_sequence ms"
  shows "place_mappings a ms = Inl NestedMappingsRequired
       \<or> place_mappings a ms = Inr (None, a, ms)"
proof (cases ms)
  case Nil
  with assms show ?thesis by (simp add: place_mappings_def)
next
  case (Cons x xs)
  with assms obtain ys where x: "x = Seq ys"
    by (cases x) (simp_all add: nested_sequence_def)
  show ?thesis
  proof (cases ys)
    case Nil
    with x Cons assms show ?thesis by (simp add: place_mappings_def)
  next
    case (Cons y ys')
    with x \<open>ms = x # xs\<close> assms show ?thesis by (simp add: place_mappings_def)
  qed
qed

lemma place_mappings_4d:
  assumes "ndim a = 4"
  shows "(\<exists>e. place_mappings a ms = Inl e) \<or> place_mappings a ms = Inr (None, a, ms)"
  using assms unfolding place_mappings_def by (auto split: sum.splits)

text \<open>
  C7. The construction fails, with no instance and so no pixel data, whenever a flat
  sequence of mappings comes with a 4D array, or a nested sequence comes with a 2D or 3D
  array, or the number of mappings given for a 4D array is not its number of channels.
  When a step that the constructor makes before it looks at the mappings fails, of the
  checks of the source images, of the transfer syntax and of the window width, the
  constructor of the base class and the check of the content creator's name, the
  exception is that of the first such step that fails. When none of them fails, the
  exception for an empty sequence is the one that asks for a flat sequence with a 2D or
  3D array and the one that asks for a nested sequence with a 4D array, and the exception
  for a nested sequence of the wrong length with a 4D array is of the class mapping shape
  mismatch. Which exception a flat sequence that is not empty raises with a 4D array, and
  a nested sequence that is not empty with a 2D or 3D array, is not part of the statement.
\<close>

theorem C7_mapping_shape:
  "(ndim (pixel_array args) = 4 \<and> flat_sequence (real_world_value_mappings args)
      \<longrightarrow> (\<exists>e. ParametricMap_init env args = Inl e))
   \<and> (ndim (pixel_array args) \<in> {2, 3} \<and> nested_sequence (real_world_value_mappings args)
      \<longrightarrow> (\<exists>e. ParametricMap_init env args = Inl e))
   \<and> (ndim (pixel_array args) = 4
        \<and> length (real_world_value_mappings args) \<noteq> num_channels args
      \<longrightarrow> (\<exists>e. ParametricMap_init env args = Inl e))
   \<and> (\<forall>e. failure_before_mappings env args = Some e
        \<longrightarrow> ParametricMap_init env args = Inl e)
   \<and> (failure_before_mappings env args = None \<longrightarrow>
        (ndim (pixel_array args) \<in> {2, 3} \<and> real_world_value_mappings args = []
           \<longrightarrow> ParametricMap_init env args = Inl FlatMappingsRequired)
      \<and> (ndim (pixel_array args) = 4 \<and> real_world_value_mappings args = []
           \<longrightarrow> ParametricMap_init env args = Inl NestedMappingsRequired)
      \<and> (ndim (pixel_array args) = 4 \<and> nested_sequence (real_world_value_mappings args)
           \<and> length (real_world_value_mappings args) \<noteq> num_channels args
           \<longrightarrow> (\<exists>e. ParametricMap_init env args = Inl e \<and> is_MappingShapeMismatch e)))"
proof -
  let ?a = "pixel_array args"
  let ?ms = "real_world_value_mappings args"
  define a3 where a3: "a3 = (if ndim ?a = 2 then newaxis_first ?a else ?a)"
  have rank23: "ndim a3 \<in> {2, 3}" if "ndim ?a \<in> {2, 3}"
    using that by (auto simp: a3 ndim_def newaxis_first_def)
  have rank4: "ndim a3 = 4" if "ndim ?a = 4"
    using that by (simp add: a3)
  have flat: "\<exists>e. ParametricMap_init env args = Inl e"
    if nd: "ndim ?a = 4" and fl: "flat_sequence ?ms"
  proof (cases "?ms = []")
    case True
    from place_mappings_empty [of a3] have "\<exists>e. place_mappings a3 ?ms = Inl e"
      by (simp add: True)
    then obtain e where "place_mappings a3 ?ms = Inl e" ..
    from init_fails_if_mappings_fail [OF a3 this] show ?thesis .
  next
    case False
    from place_mappings_flat_4d [OF rank4 [OF nd] fl False]
    have "place_mappings a3 ?ms = Inl KeyError" .
    from init_fails_if_mappings_fail [OF a3 this] show ?thesis .
  qed
  have nested: "\<exists>e. ParametricMap_init env args = Inl e"
    if nd: "ndim ?a \<in> {2, 3}" and ne: "nested_sequence ?ms"
  proof (cases "?ms = []")
    case True
    from place_mappings_empty [of a3] have "\<exists>e. place_mappings a3 ?ms = Inl e"
      by (simp add: True)
    then obtain e where "place_mappings a3 ?ms = Inl e" ..
    from init_fails_if_mappings_fail [OF a3 this] show ?thesis .
  next
    case False
    from place_mappings_nested_2d_3d [OF rank23 [OF nd] ne False]
    have "place_mappings a3 ?ms = Inl SequenceContentsTypeError" .
    from init_fails_if_mappings_fail [OF a3 this] show ?thesis .
  qed
  have count: "\<exists>e. ParametricMap_init env args = Inl e"
    if nd: "ndim ?a = 4" and len: "length ?ms \<noteq> num_channels args"
  proof -
    from nd have sh: "shape a3 = shape ?a" by (simp add: a3)
    from nd len have len': "length ?ms \<noteq> shape a3 ! 3"
      by (simp add: sh num_channels_def as_4d_def)
    from place_mappings_4d [OF rank4 [OF nd], of ?ms]
    consider e where "place_mappings a3 ?ms = Inl e"
      | "place_mappings a3 ?ms = Inr (None, a3, ?ms)"
      by blast
    then show ?thesis
    proof cases
      case 1
      from init_fails_if_mappings_fail [OF a3 1] show ?thesis .
    next
      case 2
      from init_fails_count [OF a3 2 len'] show ?thesis by blast
    qed
  qed
  have earlier: "ParametricMap_init env args = Inl e"
    if "failure_before_mappings env args = Some e" for e
    using that by (rule init_fails_before_mappings)
  have empty23: "ParametricMap_init env args = Inl FlatMappingsRequired"
    if none: "failure_before_mappings env args = None"
      and nd: "ndim ?a \<in> {2, 3}" and em: "?ms = []"
  proof -
    from place_mappings_empty [of a3] rank23 [OF nd]
    have "place_mappings a3 ?ms = Inl FlatMappingsRequired"
      by (simp add: em)
    from init_fails_mappings [OF none a3 this] show ?thesis .
  qed
  have empty4: "ParametricMap_init env args = Inl NestedMappingsRequired"
    if none: "failure_before_mappings env args = None"
      and nd: "ndim ?a = 4" and em: "?ms = []"
  proof -
    from place_mappings_empty [of a3] rank4 [OF nd]
    have "place_mappings a3 ?ms = Inl NestedMappingsRequired"
      by (simp add: em)
    from init_fails_mappings [OF none a3 this] show ?thesis .
  qed
  have wrong_length: "\<exists>e. ParametricMap_init env args = Inl e \<and> is_MappingShapeMismatch e"
    if none: "failure_before_mappings env args = None"
      and nd: "ndim ?a = 4" and ne: "nested_sequence ?ms"
      and len: "length ?ms \<noteq> num_channels args"
  proof -
    from nd have sh: "shape a3 = shape ?a" by (simp add: a3)
    from nd len have len': "length ?ms \<noteq> shape a3 ! 3"
      by (simp add: sh num_channels_def as_4d_def)
    from place_mappings_nested_4d [OF rank4 [OF nd] ne]
    consider "place_mappings a3 ?ms = Inl NestedMappingsRequired"
      | "place_mappings a3 ?ms = Inr (None, a3, ?ms)"
      by blast
    then show ?thesis
    proof cases
      case 1
      from init_fails_mappings [OF none a3 1] show ?thesis
        by (simp add: is_MappingShapeMismatch_def)
    next
      case 2
      from init_fails_count [OF a3 2 len'] none show ?thesis
        by (simp add: is_MappingShapeMismatch_def)
    qed
  qed
  from flat nested count earlier empty23 empty4 wrong_length show ?thesis by blast
qed

theorem C7_mapping_shape_witness:
  "(\<exists>e. ParametricMap_init example_env
          (example_args\<lparr>real_world_value_mappings :=
             [Item (LUTLabel ''a''), Item (LUTLabel ''b'')]\<rparr>) = Inl e)
   \<and> (\<exists>e. ParametricMap_init example_env
          (example_args_encapsulated
             \<lparr>real_world_value_mappings := [Seq [Item (LUTLabel ''a'')]]\<rparr>) = Inl e)
   \<and> shape (pixel_array example_args_two_of_three) = [2, 5, 5, 3]
   \<and> length (real_world_value_mappings example_args_two_of_three) = 2
   \<and> (\<exists>e. ParametricMap_init example_env example_args_two_of_three = Inl e
          \<and> is_MappingShapeMismatch e)
   \<and> ParametricMap_init example_env (example_args_two_of_three\<lparr>source_images := []\<rparr>)
      = Inl NoSourceImage
   \<and> ParametricMap_init example_env (example_args_encapsulated\<lparr>real_world_value_mappings := []\<rparr>)
      = Inl FlatMappingsRequired
   \<and> ParametricMap_init example_env (example_args\<lparr>real_world_value_mappings := []\<rparr>)
      = Inl NestedMappingsRequired"
proof -
  let ?f = "example_args\<lparr>real_world_value_mappings :=
              [Item (LUTLabel ''a''), Item (LUTLabel ''b'')]\<rparr>"
  let ?n = "example_args_encapsulated
              \<lparr>real_world_value_mappings := [Seq [Item (LUTLabel ''a'')]]\<rparr>"
  let ?c = "example_args_two_of_three"
  let ?s = "example_args_two_of_three\<lparr>source_images := []\<rparr>"
  let ?e2 = "example_args_encapsulated\<lparr>real_world_value_mappings := []\<rparr>"
  let ?e4 = "example_args\<lparr>real_world_value_mappings := []\<rparr>"
  have f: "ndim (pixel_array ?f) = 4" "flat_sequence (real_world_value_mappings ?f)"
    by (simp_all add: ndim_def flat_sequence_def example_args_def)
  have n: "ndim (pixel_array ?n) \<in> {2, 3}" "nested_sequence (real_world_value_mappings ?n)"
    by (simp_all add: ndim_def nested_sequence_def example_defs)
  have c: "ndim (pixel_array ?c) = 4" "shape (pixel_array ?c) = [2, 5, 5, 3]"
    "length (real_world_value_mappings ?c) = 2" "num_channels ?c = 3"
    "nested_sequence (real_world_value_mappings ?c)"
    "failure_before_mappings example_env ?c = None"
    by (simp_all add: ndim_def nested_sequence_def failure_before_mappings_def
          check_arguments_def num_channels_def as_4d_def uniqueness_criteria_def
          supported_transfer_syntaxes_def example_defs)
  have s: "failure_before_mappings example_env ?s = Some NoSourceImage"
    by (simp add: failure_before_mappings_def check_arguments_def)
  have e2: "ndim (pixel_array ?e2) \<in> {2, 3}" "real_world_value_mappings ?e2 = []"
    "failure_before_mappings example_env ?e2 = None"
    by (simp_all add: ndim_def failure_before_mappings_def check_arguments_def
          uniqueness_criteria_def supported_transfer_syntaxes_def example_defs)
  have e4: "ndim (pixel_array ?e4) = 4" "real_world_value_mappings ?e4 = []"
    "failure_before_mappings example_env ?e4 = None"
    by (simp_all add: ndim_def failure_before_mappings_def check_arguments_def
          uniqueness_criteria_def supported_transfer_syntaxes_def example_defs)
  from C7_mapping_shape [of ?f example_env] f
  have 1: "\<exists>e. ParametricMap_init example_env ?f = Inl e" by blast
  from C7_mapping_shape [of ?n example_env] n
  have 2: "\<exists>e. ParametricMap_init example_env ?n = Inl e" by blast
  from C7_mapping_shape [of ?c example_env] c
  have 3: "\<exists>e. ParametricMap_init example_env ?c = Inl e \<and> is_MappingShapeMismatch e"
    by simp
  from C7_mapping_shape [of ?s example_env] s
  have 4: "ParametricMap_init example_env ?s = Inl NoSourceImage" by blast
  from C7_mapping_shape [of ?e2 example_env] e2
  have 5: "ParametricMap_init example_env ?e2 = Inl FlatMappingsRequired" by blast
  from C7_mapping_shape [of ?e4 example_env] e4
  have 6: "ParametricMap_init example_env ?e4 = Inl NestedMappingsRequired" by blast
  from 1 2 c(2,3) 3 4 5 6 show ?thesis by blast
qed

theorem C7_mapping_shape_counterexample:
  "ndim (pixel_array (example_args_two_of_three\<lparr>window_width := 0\<rparr>)) = 4
   \<and> length (real_world_value_mappings (example_args_two_of_three\<lparr>window_width := 0\<rparr>)) = 2
   \<and> num_channels (example_args_two_of_three\<lparr>window_width := 0\<rparr>) = 3
   \<and> ParametricMap_init example_env (example_args_two_of_three\<lparr>window_width := 0\<rparr>)
      = Inl InvalidWindowWidth
   \<and> \<not> is_MappingShapeMismatch InvalidWindowWidth
   \<and> ndim (pixel_array (example_args\<lparr>real_world_value_mappings :=
                           [Item (LUTLabel ''a''), Item (LUTLabel ''b'')]\<rparr>)) = 4
   \<and> num_channels (example_args\<lparr>real_world_value_mappings :=
                     [Item (LUTLabel ''a''), Item (LUTLabel ''b'')]\<rparr>) = 2
   \<and> flat_sequence [Item (LUTLabel ''a''), Item (LUTLabel ''b'')]
   \<and> ParametricMap_init example_env
       (example_args\<lparr>real_world_value_mappings :=
          [Item (LUTLabel ''a''), Item (LUTLabel ''b'')]\<rparr>) = Inl KeyError
   \<and> \<not> is_MappingShapeMismatch KeyError
   \<and> ndim (pixel_array (example_args_encapsulated
             \<lparr>real_world_value_mappings := [Seq [Item (LUTLabel ''a'')]]\<rparr>)) = 2
   \<and> nested_sequence [Seq [Item (LUTLabel ''a'')]]
   \<and> ParametricMap_init example_env
       (example_args_encapsulated\<lparr>real_world_value_mappings := [Seq [Item (LUTLabel ''a'')]]\<rparr>)
      = Inl SequenceContentsTypeError
   \<and> \<not> is_MappingShapeMismatch SequenceContentsTypeError"
  by (simp add: ParametricMap_init_def check_arguments_def uniqueness_criteria_def
        supported_transfer_syntaxes_def num_channels_def as_4d_def ndim_def
        newaxis_first_def place_mappings_def flat_sequence_def nested_sequence_def
        is_MappingShapeMismatch_def Let_def example_defs)

text \<open>
  The two cases that the statement above leaves out, when no earlier step fails. With a
  4D array and a flat sequence that is not empty, the second subscript of line 413 is
  applied to a mapping item and raises KeyError, which \<^verbatim>\<open>except IndexError\<close> lets through:
  the TypeError of lines 414-415 is not raised. With a 2D or 3D array and a nested
  sequence that is not empty, line 388 stores the sequence in the shared item before
  lines 389-397 look at it, and pydicom raises its own TypeError: the TypeError of lines
  392 and 397, with the message of the branch, is not raised.
\<close>

lemma flat_sequence_with_4d_array:
  assumes "failure_before_mappings env args = None"
    and "ndim (pixel_array args) = 4"
    and "flat_sequence (real_world_value_mappings args)"
    and "real_world_value_mappings args \<noteq> []"
  shows "ParametricMap_init env args = Inl KeyError"
proof -
  define a3 where a3: "a3 = (if ndim (pixel_array args) = 2 then newaxis_first (pixel_array args)
                             else pixel_array args)"
  from assms(2) have "ndim a3 = 4" by (simp add: a3)
  from place_mappings_flat_4d [OF this assms(3,4)]
  have "place_mappings a3 (real_world_value_mappings args) = Inl KeyError" .
  from init_fails_mappings [OF assms(1) a3 this] show ?thesis .
qed

lemma nested_sequence_with_2d_or_3d_array:
  assumes "failure_before_mappings env args = None"
    and "ndim (pixel_array args) \<in> {2, 3}"
    and "nested_sequence (real_world_value_mappings args)"
    and "real_world_value_mappings args \<noteq> []"
  shows "ParametricMap_init env args = Inl SequenceContentsTypeError"
proof -
  define a3 where a3: "a3 = (if ndim (pixel_array args) = 2 then newaxis_first (pixel_array args)
                             else pixel_array args)"
  from assms(2) have "ndim a3 \<in> {2, 3}"
    by (auto simp: a3 ndim_def newaxis_first_def)
  from place_mappings_nested_2d_3d [OF this assms(3,4)]
  have "place_mappings a3 (real_world_value_mappings args) = Inl SequenceContentsTypeError" .
  from init_fails_mappings [OF assms(1) a3 this] show ?thesis .
qed

subsection \<open>Lists indexed by position and channel\<close>

lemma index_bound: "a < A \<Longrightarrow> b < B \<Longrightarrow> a * B + b < A * (B :: nat)"
proof -
  assume a: "a < A" and b: "b < B"
  then have "a * B + b < a * B + B" by simp
  also have "\<dots> = Suc a * B" by simp
  also from a have "\<dots> \<le> A * B" by (intro mult_le_mono1) simp
  finally show ?thesis .
qed

lemma length_concat_uniform:
  "length (concat (map (\<lambda>i. map (h i) [0..<m]) [0..<n])) = n * m"
  by (induction n) simp_all

lemma nth_concat_uniform:
  "i < n \<Longrightarrow> j < m \<Longrightarrow> concat (map (\<lambda>i. map (h i) [0..<m]) [0..<n]) ! (i * m + j) = h i j"
proof (induction n)
  case 0
  then show ?case by simp
next
  case (Suc n)
  show ?case
  proof (cases "i < n")
    case True
    with Suc.prems have "i * m + j < n * m" by (intro index_bound)
    with True Suc show ?thesis by (simp add: nth_append length_concat_uniform)
  next
    case False
    with Suc.prems have "i = n" by simp
    with Suc.prems show ?thesis by (simp add: nth_append length_concat_uniform)
  qed
qed

lemma map_eq_concat_uniform:
  assumes len: "length xs = n * m"
    and each: "\<forall>i<n. \<forall>j<m. f (xs ! (i * m + j)) = g i j"
  shows "map f xs = concat (map (\<lambda>i. map (g i) [0..<m]) [0..<n])"
proof (rule nth_equalityI)
  show "length (map f xs) = length (concat (map (\<lambda>i. map (g i) [0..<m]) [0..<n]))"
    by (simp add: len length_concat_uniform)
next
  fix k
  assume "k < length (map f xs)"
  with len have k: "k < n * m" by simp
  then have m: "0 < m" by (cases m) simp_all
  with k have i: "k div m < n" by (simp add: less_mult_imp_div_less)
  from m have j: "k mod m < m" by simp
  have split: "k div m * m + k mod m = k" by simp
  from each i j have "f (xs ! (k div m * m + k mod m)) = g (k div m) (k mod m)" by blast
  with nth_concat_uniform [OF i j, of g] k len show
    "map f xs ! k = concat (map (\<lambda>i. map (g i) [0..<m]) [0..<n]) ! k"
    by (simp add: split)
qed

lemma concat_map_uniform_flat:
  "concat (map (\<lambda>i. map (\<lambda>j. h (i * m + j)) [0..<m]) [0..<n]) = map h [0..<n * m]"
proof (rule nth_equalityI)
  show "length (concat (map (\<lambda>i. map (\<lambda>j. h (i * m + j)) [0..<m]) [0..<n]))
          = length (map h [0..<n * m])"
    by (simp add: length_concat_uniform)
next
  fix k
  assume "k < length (concat (map (\<lambda>i. map (\<lambda>j. h (i * m + j)) [0..<m]) [0..<n]))"
  then have k: "k < n * m" by (simp add: length_concat_uniform)
  then have m: "0 < m" by (cases m) simp_all
  with k have i: "k div m < n" by (simp add: less_mult_imp_div_less)
  from m have j: "k mod m < m" by simp
  from nth_concat_uniform [OF i j, of "\<lambda>i j. h (i * m + j)"] k
  show "concat (map (\<lambda>i. map (\<lambda>j. h (i * m + j)) [0..<m]) [0..<n]) ! k = map h [0..<n * m] ! k"
    by simp
qed

subsection \<open>Reading a buffer back\<close>

lemma frombuffer_uint16_append:
  "even (length xs) \<Longrightarrow>
   frombuffer_uint16 (xs @ ys) = frombuffer_uint16 xs @ frombuffer_uint16 ys"
  by (induction xs rule: frombuffer_uint16.induct) simp_all

lemma frombuffer_uint16_concat:
  "\<forall>f \<in> set fs. even (length f) \<Longrightarrow>
   frombuffer_uint16 (concat fs) = concat (map frombuffer_uint16 fs)"
  by (induction fs) (simp_all add: frombuffer_uint16_append)

lemma frombuffer_uint16_element:
  "frombuffer_uint16 (element_bytes 2 v @ rest) = (v mod 2 ^ 16) # frombuffer_uint16 rest"
proof -
  have e: "element_bytes 2 v = [word_of_int v, word_of_int (v div 256)]"
    by (simp add: element_bytes_def numeral_2_eq_2)
  have "v mod (256 * 256) = 256 * (v div 256 mod 256) + v mod 256"
    by (rule zmod_zmult2_eq) simp
  then have "v mod 256 + 256 * (v div 256 mod 256) = v mod 65536"
    by simp
  then show ?thesis by (simp add: e uint_word_of_int)
qed

lemma frombuffer_uint16_elements:
  "frombuffer_uint16 (concat (map (element_bytes 2) vs)) = map (\<lambda>v. v mod 2 ^ 16) vs"
  by (induction vs) (simp_all add: frombuffer_uint16_element)

lemma frombuffer_uint16_elements_comp:
  "frombuffer_uint16 (concat (map (element_bytes 2 \<circ> g) vs)) = map (\<lambda>v. g v mod 2 ^ 16) vs"
  by (induction vs) (simp_all add: frombuffer_uint16_element)

lemma length_elements:
  "length (concat (map (element_bytes 2 \<circ> g) vs)) = 2 * length vs"
  by (induction vs) (simp_all add: element_bytes_def)

lemma encode_frame_native_unsigned:
  assumes "\<not> is_encapsulated (TransferSyntaxUID self)" and "ndim p = 2"
    and "dtype p \<in> {np_uint8, np_uint16}"
  shows "\<exists>frame. encode_frame env self p = Inr frame
           \<and> frombuffer_uint16 frame = map (\<lambda>v. v mod 2 ^ 16) (data p)
           \<and> length frame = 2 * length (data p)"
  using assms length_elements [of id "data p"]
  by (auto simp: encode_frame_def tobytes_def astype_uint16_def
        frombuffer_uint16_elements frombuffer_uint16_elements_comp length_elements)

lemma length_concat_const:
  "\<forall>f \<in> set fs. length f = K \<Longrightarrow> length (concat fs) = length fs * K"
  by (induction fs) simp_all

lemma concat_concat_map:
  "concat (concat (map F xs)) = concat (map (\<lambda>x. concat (F x)) xs)"
  by (induction xs) simp_all

subsection \<open>Planes of a 4D array\<close>

lemma shape_4d:
  assumes "ndim a = 4"
  obtains n r c m where "shape a = [n, r, c, m]"
proof -
  from assms have "length (shape a) = Suc (Suc (Suc (Suc 0)))" by (simp add: ndim_def)
  then obtain n r c m where "shape a = [n, r, c, m]"
    by (auto simp: length_Suc_conv)
  then show ?thesis by (rule that)
qed

lemma getitem_plane_4d:
  assumes "shape a = [n, r, c, m]"
  shows "getitem_plane a i j =
           \<lparr>dtype = dtype a, shape = [r, c],
            data = concat (map (\<lambda>y. map (\<lambda>x. data a ! (((i * r + y) * c + x) * m + j)) [0..<c])
                     [0..<r])\<rparr>"
  using assms by (simp add: getitem_plane_def Let_def)

lemma plane_index_bound:
  assumes "i < n" "y < r" "x < c" "j < (m :: nat)"
  shows "((i * r + y) * c + x) * m + j < n * r * c * m"
  using assms by (intro index_bound)

lemma plane_data:
  assumes sh: "shape a = [n, r, c, m]" and len: "length (data a) = n * r * c * m"
    and i: "i < n" and j: "j < m"
  shows "set (data (getitem_plane a i j)) \<subseteq> set (data a)"
    and "length (data (getitem_plane a i j)) = r * c"
proof -
  show "set (data (getitem_plane a i j)) \<subseteq> set (data a)"
  proof
    fix v
    assume "v \<in> set (data (getitem_plane a i j))"
    then obtain y x where "y < r" "x < c"
      and v: "v = data a ! (((i * r + y) * c + x) * m + j)"
      unfolding getitem_plane_4d [OF sh] by auto
    with i j have "((i * r + y) * c + x) * m + j < length (data a)"
      unfolding len by (intro plane_index_bound)
    with v show "v \<in> set (data a)" by simp
  qed
  show "length (data (getitem_plane a i j)) = r * c"
    unfolding getitem_plane_4d [OF sh] by (simp add: length_concat_uniform)
qed

lemma samples_single_channel:
  assumes sh: "shape a = [n, r, c, 1]" and len: "length (data a) = n * r * c"
  shows "samples_in_frame_order a = data a"
proof -
  have plane: "data (getitem_plane a i 0) = map (\<lambda>k. data a ! (i * (r * c) + k)) [0..<r * c]"
    for i
  proof -
    have "data (getitem_plane a i 0)
            = concat (map (\<lambda>y. map (\<lambda>x. data a ! (i * (r * c) + (y * c + x))) [0..<c]) [0..<r])"
      unfolding getitem_plane_4d [OF sh] by (simp add: algebra_simps)
    also have "\<dots> = map (\<lambda>k. data a ! (i * (r * c) + k)) [0..<r * c]"
      by (rule concat_map_uniform_flat [of "\<lambda>k. data a ! (i * (r * c) + k)" c r])
    finally show ?thesis .
  qed
  have "samples_in_frame_order a
          = concat (map (\<lambda>i. map (\<lambda>k. data a ! (i * (r * c) + k)) [0..<r * c]) [0..<n])"
    by (simp add: samples_in_frame_order_def sh plane)
  also have "\<dots> = map (\<lambda>k. data a ! k) [0..<n * (r * c)]"
    by (rule concat_map_uniform_flat)
  also have "\<dots> = data a"
    using map_nth [of "data a"] len by (simp add: mult.assoc)
  finally show ?thesis .
qed

lemma unsigned_in_range:
  assumes "d \<in> {np_uint8, np_uint16}" and "in_range d v"
  shows "v mod 2 ^ 16 = v"
  using assms by (auto simp: in_range_def)

lemma wf_as_4d:
  assumes "wf_ndarray a"
  shows "length (data (as_4d a)) = prod_list (shape (as_4d a))"
    and "list_all (in_range (dtype a)) (data (as_4d a))"
  using assms by (simp_all add: wf_ndarray_def as_4d_def)

subsection \<open>Native unsigned round trip\<close>

text \<open>
  C4. For an instance that the constructor returns for a well-formed array of unsigned
  integers with an uncompressed transfer syntax, the pixel data, read back as unsigned
  16-bit samples, are the samples of the array in the order of the frames; with one
  channel this is the array as it was given. Every sample takes two bytes, 8-bit
  samples too. In particular a uint8 array of shape \<open>(3, 4, 4, 1)\<close> gives 3 frames and
  \<open>3 * 4 * 4 * 2\<close> bytes.
\<close>

theorem C4_native_unsigned_round_trip:
  assumes ok: "ParametricMap_init env args = Inr doc"
    and unsigned: "kind (dtype (pixel_array args)) = CHR ''u''"
    and native: "\<not> is_encapsulated (transfer_syntax_uid args)"
    and wf: "wf_ndarray (pixel_array args)"
  shows "\<exists>buffer. PixelData doc = Some buffer
      \<and> frombuffer_uint16 buffer = samples_in_frame_order (as_4d (pixel_array args))
      \<and> (num_channels args = 1 \<longrightarrow> frombuffer_uint16 buffer = data (pixel_array args))
      \<and> length buffer = 2 * length (data (pixel_array args))
      \<and> (dtype (pixel_array args) = np_uint8 \<and> shape (pixel_array args) = [3, 4, 4, 1]
          \<longrightarrow> NumberOfFrames doc = Some 3 \<and> length buffer = 3 * 4 * 4 * 2)"
proof -
  let ?src = "hd (source_images args)"
  let ?cs = "coordinate_system_of ?src"
  let ?a = "pixel_array args"
  from init_Inr [OF ok] obtain shared a4 mappings positions pdt attr frames groups where
    pm: "place_mappings (if ndim ?a = 2 then newaxis_first ?a else ?a)
           (real_world_value_mappings args) = Inr (shared, a4, mappings)"
    and ty: "get_pixel_data_type_and_attr a4 = Inr (pdt, attr)"
    and cf: "create_frame_items env
       (instance_before_frames args a4 (shared_functional_groups_item args ?src shared a4) pdt)
       a4 pdt mappings ?cs positions = Inr (frames, groups)"
    and doc: "doc = setattr_pixel_data
             ((instance_before_frames args a4
                (shared_functional_groups_item args ?src shared a4) pdt)
                \<lparr>NumberOfFrames := Some (length frames),
                  PerFrameFunctionalGroupsSequence := Some groups\<rparr>)
             attr
             (if is_encapsulated (TransferSyntaxUID (instance_before_frames args a4
                (shared_functional_groups_item args ?src shared a4) pdt))
              then encapsulate env frames else concat frames)"
    by blast
  let ?self = "instance_before_frames args a4
                 (shared_functional_groups_item args ?src shared a4) pdt"
  from place_mappings_Inr [OF pm] have a4: "a4 = as_4d ?a" and nd: "ndim a4 = 4"
    by blast+
  from nd obtain n r c m where sh: "shape a4 = [n, r, c, m]" by (rule shape_4d)
  have dt: "dtype a4 = dtype ?a" and da: "data a4 = data ?a"
    by (simp_all add: a4 dtype_as_4d data_as_4d)
  from wf_as_4d [OF wf] have len: "length (data a4) = n * r * c * m"
    and rng: "list_all (in_range (dtype ?a)) (data a4)"
    by (simp_all add: a4 [symmetric] sh)
  from get_pixel_data_type_and_attr_Inr [OF ty] unsigned dt
  have u: "dtype a4 \<in> {np_uint8, np_uint16}" and attr: "attr = ''PixelData''"
    by auto
  have self_native: "\<not> is_encapsulated (TransferSyntaxUID ?self)"
    using native by (simp add: instance_before_frames_simps)
  from create_frame_items_Inr [OF cf] obtain siv where
    lf: "length frames = n * m"
    and items: "\<forall>i < n. \<forall>j < m.
        frame_item env ?self a4 mappings ?cs positions siv (1 < m) i j
          = Inr (frames ! (i * m + j), groups ! (i * m + j))"
    by (auto simp: sh)
  have frame: "frombuffer_uint16 (frames ! (i * m + j)) = data (getitem_plane a4 i j)
             \<and> length (frames ! (i * m + j)) = 2 * (r * c)"
    if i: "i < n" and j: "j < m" for i j
  proof -
    let ?p = "getitem_plane a4 i j"
    from items i j
    have "frame_item env ?self a4 mappings ?cs positions siv (1 < m) i j
          = Inr (frames ! (i * m + j), groups ! (i * m + j))"
      by blast
    from frame_item_Inr [OF this]
    have enc: "encode_frame env ?self ?p = Inr (frames ! (i * m + j))" by simp
    have p: "ndim ?p = 2" "dtype ?p \<in> {np_uint8, np_uint16}"
      using u by (simp_all add: getitem_plane_4d [OF sh] ndim_def)
    from encode_frame_native_unsigned [OF self_native p, of env] enc
    have fb: "frombuffer_uint16 (frames ! (i * m + j)) = map (\<lambda>v. v mod 2 ^ 16) (data ?p)"
      and fl: "length (frames ! (i * m + j)) = 2 * length (data ?p)"
      by auto
    from plane_data [OF sh len i j] rng
    have "\<forall>v \<in> set (data ?p). in_range (dtype ?a) v" and pl: "length (data ?p) = r * c"
      by (auto simp: list_all_iff)
    with u dt have "map (\<lambda>v. v mod 2 ^ 16) (data ?p) = data ?p"
      by (intro map_idI unsigned_in_range [of "dtype ?a"]) simp_all
    with fb fl pl show ?thesis by simp
  qed
  have index: "\<exists>i j. i < n \<and> j < m \<and> k = i * m + j" if k: "k < n * m" for k
  proof -
    from k have m: "0 < m" by (cases m) simp_all
    with k have "k div m < n" by (simp add: less_mult_imp_div_less)
    moreover from m have "k mod m < m" by simp
    moreover have "k = k div m * m + k mod m" by simp
    ultimately show ?thesis by blast
  qed
  have all: "\<forall>f \<in> set frames. length f = 2 * (r * c)"
  proof
    fix f
    assume "f \<in> set frames"
    then obtain k where k: "k < length frames" and f: "f = frames ! k"
      by (auto simp: in_set_conv_nth)
    from k lf have "k < n * m" by simp
    from index [OF this] obtain i j where "i < n" "j < m" "k = i * m + j" by blast
    with frame f show "length f = 2 * (r * c)" by simp
  qed
  then have even: "\<forall>f \<in> set frames. even (length f)" by simp
  have "map frombuffer_uint16 frames
          = concat (map (\<lambda>i. map (\<lambda>j. data (getitem_plane a4 i j)) [0..<m]) [0..<n])"
    using lf frame by (intro map_eq_concat_uniform) simp_all
  then have "concat (map frombuffer_uint16 frames) = samples_in_frame_order a4"
    by (simp add: samples_in_frame_order_def sh concat_concat_map)
  with frombuffer_uint16_concat [OF even]
  have rt: "frombuffer_uint16 (concat frames) = samples_in_frame_order a4" by simp
  from length_concat_const [OF all] lf len da
  have bl: "length (concat frames) = 2 * length (data ?a)" by simp
  have pd: "PixelData doc = Some (concat frames)"
    unfolding doc attr using self_native
    by (simp add: setattr_pixel_data_def)
  have nf: "NumberOfFrames doc = Some (n * m)"
    unfolding doc by (simp add: setattr_pixel_data_simps lf)
  have single: "frombuffer_uint16 (concat frames) = data ?a" if "num_channels args = 1"
  proof -
    from that have "m = 1" by (simp add: num_channels_def a4 [symmetric] sh)
    with sh len have "samples_in_frame_order a4 = data a4"
      by (intro samples_single_channel [of a4 n r c]) simp_all
    with rt da show ?thesis by simp
  qed
  have example: "NumberOfFrames doc = Some 3 \<and> length (concat frames) = 3 * 4 * 4 * 2"
    if "dtype ?a = np_uint8" and s: "shape ?a = [3, 4, 4, 1]"
  proof -
    from s have "as_4d ?a = ?a" by (simp add: as_4d_def ndim_def)
    with a4 s sh have "n = 3" "r = 4" "c = 4" "m = 1" by simp_all
    with nf bl len da show ?thesis by simp
  qed
  from pd rt a4 single bl example show ?thesis by blast
qed

theorem C4_native_unsigned_round_trip_witness:
  "\<exists>doc buffer. ParametricMap_init example_env example_args_uint8 = Inr doc
     \<and> wf_ndarray (pixel_array example_args_uint8)
     \<and> shape (pixel_array example_args_uint8) = [3, 4, 4, 1]
     \<and> PixelData doc = Some buffer
     \<and> frombuffer_uint16 buffer = data (pixel_array example_args_uint8)
     \<and> NumberOfFrames doc = Some 3
     \<and> length buffer = 96"
proof -
  have "\<exists>doc. ParametricMap_init example_env example_args_uint8 = Inr doc"
    by (simp add: model_defs example_defs Let_def upt_rec)
  then obtain doc where ok: "ParametricMap_init example_env example_args_uint8 = Inr doc" ..
  have u: "kind (dtype (pixel_array example_args_uint8)) = CHR ''u''"
    and d: "dtype (pixel_array example_args_uint8) = np_uint8"
    and s: "shape (pixel_array example_args_uint8) = [3, 4, 4, 1]"
    by (simp_all add: example_args_uint8_def)
  have native: "\<not> is_encapsulated (transfer_syntax_uid example_args_uint8)"
    by (simp add: is_encapsulated_def example_args_uint8_def)
  have wf: "wf_ndarray (pixel_array example_args_uint8)"
    by (simp add: wf_ndarray_def in_range_def example_args_uint8_def)
  have m: "num_channels example_args_uint8 = 1"
    by (simp add: num_channels_def as_4d_def ndim_def example_args_uint8_def)
  from C4_native_unsigned_round_trip [OF ok u native wf] obtain buffer where
    "PixelData doc = Some buffer"
    "num_channels example_args_uint8 = 1
       \<longrightarrow> frombuffer_uint16 buffer = data (pixel_array example_args_uint8)"
    "dtype (pixel_array example_args_uint8) = np_uint8
       \<and> shape (pixel_array example_args_uint8) = [3, 4, 4, 1]
       \<longrightarrow> NumberOfFrames doc = Some 3 \<and> length buffer = 3 * 4 * 4 * 2"
    by blast
  with ok wf s m d show ?thesis by auto
qed

subsection \<open>Where the mappings and the signed round trip hold\<close>

text \<open>
  What the constructor does with the value mappings, for every instance it returns: a 2D
  or 3D array puts the flat sequence into the shared item, a 4D array puts nothing there;
  the per-frame items carry the mappings of their channel exactly when there are several
  channels.
\<close>

lemma mapping_placement:
  assumes ok: "ParametricMap_init env args = Inr doc"
  shows "\<exists>groups. PerFrameFunctionalGroupsSequence doc = Some groups
     \<and> length groups = num_positions args * num_channels args
     \<and> map sffg_RealWorldValueMappingSequence (SharedFunctionalGroupsSequence doc)
         = [if ndim (pixel_array args) = 4 then None
            else Some (Seq (real_world_value_mappings args))]
     \<and> (\<forall>i < num_positions args. \<forall>j < num_channels args.
          RealWorldValueMappingSequence (groups ! (i * num_channels args + j))
            = (if 1 < num_channels args then Some (real_world_value_mappings args ! j)
               else None))"
proof -
  let ?src = "hd (source_images args)"
  let ?cs = "coordinate_system_of ?src"
  let ?a = "pixel_array args"
  from init_Inr [OF ok] obtain shared a4 mappings positions pdt attr frames groups where
    pm: "place_mappings (if ndim ?a = 2 then newaxis_first ?a else ?a)
           (real_world_value_mappings args) = Inr (shared, a4, mappings)"
    and cf: "create_frame_items env
       (instance_before_frames args a4 (shared_functional_groups_item args ?src shared a4) pdt)
       a4 pdt mappings ?cs positions = Inr (frames, groups)"
    and doc: "doc = setattr_pixel_data
             ((instance_before_frames args a4
                (shared_functional_groups_item args ?src shared a4) pdt)
                \<lparr>NumberOfFrames := Some (length frames),
                  PerFrameFunctionalGroupsSequence := Some groups\<rparr>)
             attr
             (if is_encapsulated (TransferSyntaxUID (instance_before_frames args a4
                (shared_functional_groups_item args ?src shared a4) pdt))
              then encapsulate env frames else concat frames)"
    by blast
  let ?self = "instance_before_frames args a4
                 (shared_functional_groups_item args ?src shared a4) pdt"
  from place_mappings_Inr [OF pm] have a4: "a4 = as_4d ?a"
    and sm: "shared = (if ndim ?a = 4 then None else Some (Seq (real_world_value_mappings args)))"
    and maps: "1 < shape a4 ! 3 \<Longrightarrow> mappings = real_world_value_mappings args"
    by auto
  have n: "shape a4 ! 0 = num_positions args" and m: "shape a4 ! 3 = num_channels args"
    by (simp_all add: a4 num_positions_def num_channels_def)
  from create_frame_items_Inr [OF cf] obtain siv where
    lg: "length groups = shape a4 ! 0 * shape a4 ! 3"
    and items: "\<forall>i < shape a4 ! 0. \<forall>j < shape a4 ! 3.
        frame_item env ?self a4 mappings ?cs positions siv (1 < shape a4 ! 3) i j
          = Inr (frames ! (i * shape a4 ! 3 + j), groups ! (i * shape a4 ! 3 + j))"
    by blast
  have pf: "PerFrameFunctionalGroupsSequence doc = Some groups"
    unfolding doc by (simp add: setattr_pixel_data_simps)
  have sh: "map sffg_RealWorldValueMappingSequence (SharedFunctionalGroupsSequence doc)
         = [if ndim ?a = 4 then None else Some (Seq (real_world_value_mappings args))]"
    unfolding doc
    by (simp add: setattr_pixel_data_simps instance_before_frames_simps
          shared_functional_groups_item_def sm)
  have each: "RealWorldValueMappingSequence (groups ! (i * num_channels args + j))
            = (if 1 < num_channels args then Some (real_world_value_mappings args ! j)
               else None)"
    if "i < num_positions args" and "j < num_channels args" for i j
  proof -
    from items that n m
    have "frame_item env ?self a4 mappings ?cs positions siv (1 < shape a4 ! 3) i j
          = Inr (frames ! (i * shape a4 ! 3 + j), groups ! (i * shape a4 ! 3 + j))"
      by simp
    from frame_item_Inr [OF this] maps show ?thesis by (auto simp: m)
  qed
  from pf lg n m sh each show ?thesis by auto
qed

text \<open>
  The rescale transformation of an instance: intercept \<open>2^15\<close> for signed integers,
  \<open>0\<close> for every other array, slope 1.
\<close>

lemma rescale_transformation:
  assumes ok: "ParametricMap_init env args = Inr doc"
  shows "map (\<lambda>item. (RescaleIntercept item, RescaleSlope item))
           (concat (map PixelValueTransformationSequence (SharedFunctionalGroupsSequence doc)))
         = [(if kind (dtype (pixel_array args)) = CHR ''i'' then 2 ^ 15 else 0, 1)]"
proof -
  from init_Inr [OF ok] obtain shared a4 mappings pdt attr frames groups where
    pm: "place_mappings (if ndim (pixel_array args) = 2
           then newaxis_first (pixel_array args) else pixel_array args)
           (real_world_value_mappings args) = Inr (shared, a4, mappings)"
    and doc: "doc = setattr_pixel_data
             ((instance_before_frames args a4
                (shared_functional_groups_item args (hd (source_images args)) shared a4) pdt)
                \<lparr>NumberOfFrames := Some (length frames),
                  PerFrameFunctionalGroupsSequence := Some groups\<rparr>)
             attr
             (if is_encapsulated (TransferSyntaxUID (instance_before_frames args a4
                (shared_functional_groups_item args (hd (source_images args)) shared a4) pdt))
              then encapsulate env frames else concat frames)"
    by blast
  from place_mappings_Inr [OF pm] have "dtype a4 = dtype (pixel_array args)"
    by (simp add: dtype_as_4d)
  then show ?thesis
    unfolding doc
    by (simp add: setattr_pixel_data_simps instance_before_frames_simps
          shared_functional_groups_item_def pixel_value_transformation_def)
qed

text \<open>
  The native branch for signed 8-bit and 16-bit samples: the stored unsigned 16-bit
  sample minus \<open>2^15\<close> is the signed value.
\<close>

lemma native_signed_round_trip:
  assumes native: "\<not> is_encapsulated (TransferSyntaxUID self)" and nd: "ndim p = 2"
    and ty: "dtype p \<in> {np_int8, np_int16}"
    and rng: "list_all (in_range (dtype p)) (data p)"
  shows "\<exists>frame. encode_frame env self p = Inr frame
           \<and> map (\<lambda>stored. stored - 2 ^ 15) (frombuffer_uint16 frame) = data p"
proof -
  have enc: "encode_frame env self p = Inr (tobytes (rescale_signed p))"
    using native nd ty by (auto simp: encode_frame_def)
  have v: "(v + 32768) mod 65536 mod 65536 - 32768 = v"
    if "in_range (dtype p) v" for v
  proof -
    from that ty have "- 32768 \<le> v \<and> v < 32768" by (auto simp: in_range_def)
    then show ?thesis by simp
  qed
  have "tobytes (rescale_signed p)
          = concat (map (element_bytes 2 \<circ> (\<lambda>v. (v + 32768) mod 65536)) (data p))"
    by (simp add: tobytes_def rescale_signed_def astype_int16_def comp_def)
  then have "frombuffer_uint16 (tobytes (rescale_signed p))
          = map (\<lambda>v. (v + 32768) mod 65536 mod 2 ^ 16) (data p)"
    by (simp only: frombuffer_uint16_elements_comp)
  then have "map (\<lambda>stored. stored - 2 ^ 15) (frombuffer_uint16 (tobytes (rescale_signed p)))
          = map (\<lambda>v. (v + 32768) mod 65536 mod 65536 - 32768) (data p)"
    by simp
  also have "\<dots> = data p"
    using rng by (intro map_idI v) (simp add: list_all_iff)
  finally show ?thesis using enc by simp
qed

end
